theory Spec2Isabelle
  imports Complex_Main "HOL-Library.Stream"
begin

section \<open>Python values and library calls used by the generator\<close>

text \<open>
  The generator (\<^verbatim>\<open>generate_data.py\<close>) computes with Python floats. They are
  idealised here as exact rationals: \<open>+\<close>, \<open>-\<close>, \<open>*\<close> are exact and
  \<^verbatim>\<open>round(x, n)\<close> rounds to \<open>n\<close> decimals, ties to even. Identifiers, counts and
  quantities are non-negative Python ints and are modelled as \<open>nat\<close>; a
  \<^verbatim>\<open>datetime\<close> is the number of seconds since the epoch (an \<open>int\<close>), and the
  \<^verbatim>\<open>'%Y-%m-%d %H:%M:%S'\<close> string the dictionaries store is identified with that
  number (\<^verbatim>\<open>strptime\<close> of the stored string gives it back).
\<close>

datatype py_error = IndexError | KeyError | ValueError | TypeError

definition round_half_even :: "rat \<Rightarrow> int" where
  "round_half_even x =
     (let f = \<lfloor>x\<rfloor>; d = x - of_int f
      in if d < 1 / 2 then f else if 1 / 2 < d then f + 1 else if even f then f else f + 1)"

definition py_round :: "rat \<Rightarrow> nat \<Rightarrow> rat" where
  "py_round x ndigits = of_int (round_half_even (x * 10 ^ ndigits)) / 10 ^ ndigits"

definition timedelta_days :: "nat \<Rightarrow> int" where
  "timedelta_days d = 86400 * int d"

definition timedelta_minutes :: "nat \<Rightarrow> int" where
  "timedelta_minutes m = 60 * int m"

subsection \<open>The \<^verbatim>\<open>random\<close> module\<close>

text \<open>
  The state of the module-level generator seeded by \<^verbatim>\<open>random.seed(42)\<close> is the
  infinite sequence of raw values it will produce. Every call consumes the next raw value:
  \<^verbatim>\<open>_randbelow(n)\<close> reduces it below \<open>n\<close>, \<^verbatim>\<open>random()\<close> turns it into a
  fraction in \<open>[0, 1)\<close>, and the other calls are CPython's definitions on top of
  these two.
\<close>

type_synonym rng = "nat stream"

definition randbelow :: "nat \<Rightarrow> rng \<Rightarrow> nat \<times> rng" where
  "randbelow n r = (shd r mod n, stl r)"

text \<open>\<^verbatim>\<open>random.randint(a, b)\<close>; every call site passes literals with \<open>a \<le> b\<close>.\<close>

definition random_randint :: "nat \<Rightarrow> nat \<Rightarrow> rng \<Rightarrow> nat \<times> rng" where
  "random_randint a b r = (case randbelow (b - a + 1) r of (k, r') \<Rightarrow> (a + k, r'))"

definition random_random :: "rng \<Rightarrow> rat \<times> rng" where
  "random_random r = (of_nat (shd r mod 2 ^ 53) / 2 ^ 53, stl r)"

definition random_uniform :: "rat \<Rightarrow> rat \<Rightarrow> rng \<Rightarrow> rat \<times> rng" where
  "random_uniform a b r = (case random_random r of (u, r') \<Rightarrow> (a + (b - a) * u, r'))"

text \<open>\<^verbatim>\<open>random.choice(seq)\<close> raises \<^verbatim>\<open>IndexError\<close> on an empty sequence.\<close>

definition random_choice :: "'a list \<Rightarrow> rng \<Rightarrow> py_error + ('a \<times> rng)" where
  "random_choice xs r =
     (if xs = [] then Inl IndexError
      else case randbelow (length xs) r of (i, r') \<Rightarrow> Inr (xs ! i, r'))"

fun accumulate :: "rat \<Rightarrow> rat list \<Rightarrow> rat list" where
  "accumulate acc [] = []"
| "accumulate acc (w # ws) = (acc + w) # accumulate (acc + w) ws"

function bisect_right :: "rat list \<Rightarrow> rat \<Rightarrow> nat \<Rightarrow> nat \<Rightarrow> nat" where
  "bisect_right a x lo hi =
     (if lo < hi
      then (if x < a ! ((lo + hi) div 2)
            then bisect_right a x lo ((lo + hi) div 2)
            else bisect_right a x ((lo + hi) div 2 + 1) hi)
      else lo)"
  by pat_completeness auto
termination
  by (relation "measure (\<lambda>(a, x, lo, hi). hi - lo)") auto

declare bisect_right.simps [simp del]

text \<open>
  \<^verbatim>\<open>random.choices(population, weights=weights)[0]\<close>: the cumulative weights are
  searched for \<^verbatim>\<open>random() * total\<close> between \<open>0\<close> and \<open>n - 1\<close>.
\<close>

definition random_choices :: "'a list \<Rightarrow> rat list \<Rightarrow> rng \<Rightarrow> py_error + ('a \<times> rng)" where
  "random_choices population weights r =
     (let n = length population; cum_weights = accumulate 0 weights
      in if length cum_weights \<noteq> n then Inl ValueError
         else if cum_weights = [] then Inl IndexError
         else if last cum_weights \<le> 0 then Inl ValueError
         else case random_random r of (u, r') \<Rightarrow>
           (let i = bisect_right cum_weights (u * last cum_weights) 0 (n - 1)
            in if i < n then Inr (population ! i, r') else Inl IndexError))"

subsection \<open>Strings\<close>

definition ascii_upper :: "char \<Rightarrow> char" where
  "ascii_upper c =
     (let n = (of_char c :: nat) in if 97 \<le> n \<and> n \<le> 122 then char_of (n - 32) else c)"

definition ascii_lower :: "char \<Rightarrow> char" where
  "ascii_lower c =
     (let n = (of_char c :: nat) in if 65 \<le> n \<and> n \<le> 90 then char_of (n + 32) else c)"

definition str_upper :: "string \<Rightarrow> string" where
  "str_upper s = map ascii_upper s"

definition str_capitalize :: "string \<Rightarrow> string" where
  "str_capitalize s = (case s of [] \<Rightarrow> [] | c # cs \<Rightarrow> ascii_upper c # map ascii_lower cs)"

text \<open>\<^verbatim>\<open>s.split()[0]\<close> for the category names, which start with a word.\<close>

definition first_word :: "string \<Rightarrow> string" where
  "first_word s = takeWhile (\<lambda>c. c \<noteq> CHR '' '') (dropWhile (\<lambda>c. c = CHR '' '') s)"

subsection \<open>Faker\<close>

text \<open>
  Faker is an external library with a random generator of its own, seeded by
  \<^verbatim>\<open>Faker.seed(42)\<close> and separate from the \<^verbatim>\<open>random\<close> module's. Its providers
  are parameters of the model: each maps the state of Faker's generator to a value and
  the next state. \<^verbatim>\<open>date_time_between(start_date, end_date)\<close> resolves relative
  dates such as \<^verbatim>\<open>'-1y'\<close> and \<^verbatim>\<open>'now'\<close> against the wall clock, so it also
  takes the clock's reading at the call; the offsets are given in days.
\<close>

record faker =
  fake_first_name :: "nat stream \<Rightarrow> string \<times> nat stream"
  fake_last_name :: "nat stream \<Rightarrow> string \<times> nat stream"
  fake_email :: "nat stream \<Rightarrow> string \<times> nat stream"
  fake_phone_number :: "nat stream \<Rightarrow> string \<times> nat stream"
  fake_street_address :: "nat stream \<Rightarrow> string \<times> nat stream"
  fake_city :: "nat stream \<Rightarrow> string \<times> nat stream"
  fake_state_abbr :: "nat stream \<Rightarrow> string \<times> nat stream"
  fake_zipcode :: "nat stream \<Rightarrow> string \<times> nat stream"
  fake_word :: "nat stream \<Rightarrow> string \<times> nat stream"
  fake_company :: "nat stream \<Rightarrow> string \<times> nat stream"
  fake_uuid4 :: "nat stream \<Rightarrow> string \<times> nat stream"
  fake_date_time_between :: "int \<Rightarrow> int \<Rightarrow> int \<Rightarrow> nat stream \<Rightarrow> int \<times> nat stream"

section \<open>The data model of \<^verbatim>\<open>generate_data.py\<close>\<close>

text \<open>
  One record per dictionary the generator builds; a field is the dictionary key, prefixed
  by the entity. \<^verbatim>\<open>None\<close> is \<open>None\<close>.
\<close>

record customer =
  c_customer_id :: nat
  c_first_name :: string
  c_last_name :: string
  c_email :: string
  c_phone :: string
  c_address :: string
  c_city :: string
  c_state :: string
  c_zip_code :: string
  c_country :: string
  c_created_at :: int
  c_customer_segment :: string

record product =
  p_product_id :: nat
  p_product_name :: string
  p_category :: string
  p_price :: rat
  p_cost :: rat
  p_stock_quantity :: nat
  p_supplier :: string
  p_created_at :: int
  p_rating :: rat

datatype order_status = Pending | Processing | Shipped | Delivered | Cancelled

record order =
  o_order_id :: nat
  o_customer_id :: nat
  o_order_date :: int
  o_status :: order_status
  o_shipping_address :: string
  o_shipped_date :: "int option"
  o_delivery_date :: "int option"
  o_total_amount :: rat

record order_item =
  oi_order_item_id :: nat
  oi_order_id :: nat
  oi_product_id :: nat
  oi_quantity :: nat
  oi_unit_price :: rat
  oi_discount :: rat
  oi_total :: rat

datatype payment_status = Completed | PaymentPending | Failed | Refunded

record payment =
  pay_payment_id :: nat
  pay_order_id :: nat
  pay_payment_date :: int
  pay_payment_method :: string
  pay_payment_amount :: rat
  pay_transaction_fee :: rat
  pay_status :: payment_status
  pay_transaction_id :: string

text \<open>
  The files of the \<^verbatim>\<open>data/\<close> directory, each as the rows last written to it
  (\<open>None\<close>: not written).
\<close>

record data_files =
  customers_csv :: "customer list option"
  products_csv :: "product list option"
  orders_csv :: "order list option"
  order_items_csv :: "order_item list option"
  payments_csv :: "payment list option"

text \<open>
  What a run of the generator reads and changes: the two random generators, the wall
  clock (the readings successive calls will see) and the files.
\<close>

record gen_state =
  rnd :: rng
  fake :: "nat stream"
  clock :: "int stream"
  files :: data_files

text \<open>The module-level constants \<^verbatim>\<open>NUM_CUSTOMERS\<close> ... \<^verbatim>\<open>NUM_ORDER_ITEMS\<close>.\<close>

record config =
  NUM_CUSTOMERS :: nat
  NUM_PRODUCTS :: nat
  NUM_ORDERS :: nat
  NUM_ORDER_ITEMS :: nat


text \<open>
  A \<^verbatim>\<open>for\<close> loop that appends one record per element: the body is run on each
  element in turn, threading the state, and the first exception ends the loop.
\<close>

fun for_each :: "('a \<Rightarrow> 's \<Rightarrow> py_error + ('b \<times> 's)) \<Rightarrow> 'a list \<Rightarrow> 's \<Rightarrow> py_error + ('b list \<times> 's)" where
  "for_each body [] s = Inr ([], s)"
| "for_each body (x # xs) s =
     (case body x s of
        Inl e \<Rightarrow> Inl e
      | Inr (y, s') \<Rightarrow>
          (case for_each body xs s' of
             Inl e \<Rightarrow> Inl e
           | Inr (ys, s'') \<Rightarrow> Inr (y # ys, s'')))"

section \<open>The generator\<close>

subsection \<open>\<^verbatim>\<open>generate_customers\<close>\<close>

text \<open>
  The body of the loop: the values of the dictionary literal are evaluated in the order
  they are written. \<^verbatim>\<open>'-2y'\<close> is 730 days before now.
\<close>

definition make_customer :: "faker \<Rightarrow> nat \<Rightarrow> gen_state \<Rightarrow> py_error + (customer \<times> gen_state)" where
  "make_customer fk customer_id s =
     (let (first_name, f1) = fake_first_name fk (fake s);
          (last_name, f2) = fake_last_name fk f1;
          (email, f3) = fake_email fk f2;
          (phone, f4) = fake_phone_number fk f3;
          (address, f5) = fake_street_address fk f4;
          (city, f6) = fake_city fk f5;
          (state, f7) = fake_state_abbr fk f6;
          (zip_code, f8) = fake_zipcode fk f7;
          (created_at, f9) = fake_date_time_between fk (shd (clock s)) (- 730) 0 f8
      in case random_choice [''Regular'', ''Premium'', ''VIP'', ''New''] (rnd s) of
           Inl e \<Rightarrow> Inl e
         | Inr (segment, r1) \<Rightarrow>
             Inr (\<lparr>c_customer_id = customer_id, c_first_name = first_name,
                    c_last_name = last_name, c_email = email, c_phone = phone,
                    c_address = address, c_city = city, c_state = state,
                    c_zip_code = zip_code, c_country = ''USA'', c_created_at = created_at,
                    c_customer_segment = segment\<rparr>,
                  s\<lparr>rnd := r1, fake := f9, clock := stl (clock s)\<rparr>))"

text \<open>
  Writing the file reads \<^verbatim>\<open>customers[0].keys()\<close>, which raises
  \<^verbatim>\<open>IndexError\<close> when no record was generated.
\<close>

definition generate_customers :: "faker \<Rightarrow> config \<Rightarrow> gen_state \<Rightarrow> py_error + (customer list \<times> gen_state)" where
  "generate_customers fk cfg s =
     (case for_each (make_customer fk) [1..<NUM_CUSTOMERS cfg + 1] s of
        Inl e \<Rightarrow> Inl e
      | Inr (customers, s') \<Rightarrow>
          (if customers = [] then Inl IndexError
           else Inr (customers, s'\<lparr>files := (files s')\<lparr>customers_csv := Some customers\<rparr>\<rparr>)))"

subsection \<open>\<^verbatim>\<open>generate_products\<close>\<close>

definition categories :: "(string \<times> nat \<times> nat) list" where
  "categories =
     [(''Electronics'', 50, 2000), (''Clothing'', 15, 200), (''Home & Kitchen'', 10, 500),
      (''Books'', 5, 50), (''Sports & Outdoors'', 20, 300),
      (''Beauty & Personal Care'', 8, 100), (''Toys & Games'', 10, 150),
      (''Automotive'', 15, 500), (''Food & Grocery'', 5, 100),
      (''Health & Wellness'', 10, 200)]"

definition product_prefixes :: "(string \<times> string list) list" where
  "product_prefixes =
     [(''Electronics'', [''Smart'', ''Pro'', ''Ultra'', ''Premium'', ''Wireless'', ''Digital'']),
      (''Clothing'', [''Classic'', ''Modern'', ''Casual'', ''Formal'', ''Comfort'', ''Style'']),
      (''Home & Kitchen'', [''Essential'', ''Deluxe'', ''Professional'', ''Premium'', ''Eco'']),
      (''Books'', [''The Art of'', ''Guide to'', ''Complete'', ''Mastering'', ''Introduction to'']),
      (''Sports & Outdoors'', [''Pro'', ''Adventure'', ''Elite'', ''Performance'', ''Outdoor'']),
      (''Beauty & Personal Care'', [''Natural'', ''Organic'', ''Premium'', ''Luxury'', ''Essential'']),
      (''Toys & Games'', [''Fun'', ''Educational'', ''Creative'', ''Action'', ''Adventure'']),
      (''Automotive'', [''Premium'', ''Heavy Duty'', ''Professional'', ''Universal'', ''High Performance'']),
      (''Food & Grocery'', [''Organic'', ''Fresh'', ''Gourmet'', ''Natural'', ''Premium'']),
      (''Health & Wellness'', [''Natural'', ''Organic'', ''Premium'', ''Advanced'', ''Essential''])]"

text \<open>
  \<^verbatim>\<open>'-3y'\<close> and \<^verbatim>\<open>'-1y'\<close> are 1095 and 365 days before now. A dictionary
  lookup with a missing key raises \<^verbatim>\<open>KeyError\<close>.
\<close>

definition make_product :: "faker \<Rightarrow> nat \<Rightarrow> gen_state \<Rightarrow> py_error + (product \<times> gen_state)" where
  "make_product fk product_id s =
     (case random_choice (map fst categories) (rnd s) of
        Inl e \<Rightarrow> Inl e
      | Inr (category, r1) \<Rightarrow>
     (case map_of categories category of
        None \<Rightarrow> Inl KeyError
      | Some (price_min, price_max) \<Rightarrow>
     (case map_of product_prefixes category of
        None \<Rightarrow> Inl KeyError
      | Some prefixes \<Rightarrow>
     (case random_choice prefixes r1 of
        Inl e \<Rightarrow> Inl e
      | Inr (prefix, r2) \<Rightarrow>
          (let (word, f1) = fake_word fk (fake s);
               (price, r3) = random_uniform (of_nat price_min) (of_nat price_max) r2;
               (cost, r4) = random_uniform (of_nat price_min * (4 / 10)) (of_nat price_min * (7 / 10)) r3;
               (stock, r5) = random_randint 0 500 r4;
               (supplier, f2) = fake_company fk f1;
               (created_at, f3) = fake_date_time_between fk (shd (clock s)) (- 1095) (- 365) f2;
               (rating, r6) = random_uniform 3 5 r5
           in Inr (\<lparr>p_product_id = product_id,
                     p_product_name = prefix @ '' '' @ str_capitalize word @ '' '' @ first_word category,
                     p_category = category, p_price = py_round price 2, p_cost = py_round cost 2,
                     p_stock_quantity = stock, p_supplier = supplier, p_created_at = created_at,
                     p_rating = py_round rating 1\<rparr>,
                   s\<lparr>rnd := r6, fake := f3, clock := stl (clock s)\<rparr>))))))"

definition generate_products :: "faker \<Rightarrow> config \<Rightarrow> gen_state \<Rightarrow> py_error + (product list \<times> gen_state)" where
  "generate_products fk cfg s =
     (case for_each (make_product fk) [1..<NUM_PRODUCTS cfg + 1] s of
        Inl e \<Rightarrow> Inl e
      | Inr (products, s') \<Rightarrow>
          (if products = [] then Inl IndexError
           else Inr (products, s'\<lparr>files := (files s')\<lparr>products_csv := Some products\<rparr>\<rparr>)))"

subsection \<open>\<^verbatim>\<open>generate_orders\<close>\<close>

definition order_statuses :: "order_status list" where
  "order_statuses = [Pending, Processing, Shipped, Delivered, Cancelled]"

definition order_status_weights :: "rat list" where
  "order_status_weights = [5 / 100, 10 / 100, 15 / 100, 65 / 100, 5 / 100]"

definition make_order :: "faker \<Rightarrow> customer list \<Rightarrow> nat \<Rightarrow> gen_state \<Rightarrow> py_error + (order \<times> gen_state)" where
  "make_order fk customers order_id s =
     (case random_choice customers (rnd s) of
        Inl e \<Rightarrow> Inl e
      | Inr (customer, r1) \<Rightarrow>
          (let (order_date, f1) = fake_date_time_between fk (shd (clock s)) (- 365) 0 (fake s);
               (d1, r2) = random_randint 1 7 r1;
               shipped_date = order_date + timedelta_days d1;
               (d2, r3) = random_randint 2 10 r2;
               delivery_date = shipped_date + timedelta_days d2
           in case random_choices order_statuses order_status_weights r3 of
                Inl e \<Rightarrow> Inl e
              | Inr (status, r4) \<Rightarrow>
                  (let (street, f2) = fake_street_address fk f1;
                       (city, f3) = fake_city fk f2;
                       (state, f4) = fake_state_abbr fk f3;
                       (zip_code, f5) = fake_zipcode fk f4
                   in Inr (\<lparr>o_order_id = order_id, o_customer_id = c_customer_id customer,
                             o_order_date = order_date, o_status = status,
                             o_shipping_address = street @ '', '' @ city @ '', '' @ state @ '' '' @ zip_code,
                             o_shipped_date =
                               (if status \<in> set [Shipped, Delivered] then Some shipped_date else None),
                             o_delivery_date =
                               (if status = Delivered then Some delivery_date else None),
                             o_total_amount = 0\<rparr>,
                           s\<lparr>rnd := r4, fake := f5, clock := stl (clock s)\<rparr>))))"

definition generate_orders :: "faker \<Rightarrow> config \<Rightarrow> customer list \<Rightarrow> gen_state \<Rightarrow> py_error + (order list \<times> gen_state)" where
  "generate_orders fk cfg customers s =
     (case for_each (make_order fk customers) [1..<NUM_ORDERS cfg + 1] s of
        Inl e \<Rightarrow> Inl e
      | Inr (orders, s') \<Rightarrow>
          (if orders = [] then Inl IndexError
           else Inr (orders, s'\<lparr>files := (files s')\<lparr>orders_csv := Some orders\<rparr>\<rparr>)))"

subsection \<open>\<^verbatim>\<open>generate_order_items\<close>\<close>

text \<open>
  The loop carries \<^verbatim>\<open>item_id\<close> and the dictionary \<^verbatim>\<open>order_totals\<close> besides
  the random generator; its loop variable is not used.
\<close>

type_synonym item_loop_state = "nat \<times> (nat \<rightharpoonup> rat) \<times> gen_state"

fun make_order_item :: "order list \<Rightarrow> product list \<Rightarrow> nat \<Rightarrow> item_loop_state \<Rightarrow> py_error + (order_item \<times> item_loop_state)" where
  "make_order_item orders products _ (item_id, order_totals, s) =
     (case random_choice orders (rnd s) of
        Inl e \<Rightarrow> Inl e
      | Inr (order, r1) \<Rightarrow>
     (case random_choice products r1 of
        Inl e \<Rightarrow> Inl e
      | Inr (product, r2) \<Rightarrow>
          (let (quantity, r3) = random_randint 1 10 r2;
               (price_variation, r4) = random_uniform (95 / 100) (105 / 100) r3;
               unit_price = py_round (p_price product * price_variation) 2;
               subtotal = py_round (unit_price * of_nat quantity) 2;
               (roll, r5) = random_random r4;
               (discount, r6) =
                 (if roll < 2 / 10
                  then (case random_uniform (5 / 100) (20 / 100) r5 of
                          (fraction, r) \<Rightarrow> (py_round (subtotal * fraction) 2, r))
                  else (0, r5));
               total = py_round (subtotal - discount) 2
           in case order_totals (o_order_id order) of
                None \<Rightarrow> Inl KeyError
              | Some so_far \<Rightarrow>
                  Inr (\<lparr>oi_order_item_id = item_id, oi_order_id = o_order_id order,
                         oi_product_id = p_product_id product, oi_quantity = quantity,
                         oi_unit_price = unit_price, oi_discount = discount, oi_total = total\<rparr>,
                       (item_id + 1,
                        order_totals(o_order_id order \<mapsto> so_far + total),
                        s\<lparr>rnd := r6\<rparr>)))))"

text \<open>
  \<^verbatim>\<open>for order in orders: order['total_amount'] = round(order_totals[order['order_id']], 2)\<close>.
  The Python assigns into the dictionaries of the caller's list; the model returns the
  updated list, and the caller goes on with it.
\<close>

fun update_order_totals :: "(nat \<rightharpoonup> rat) \<Rightarrow> order list \<Rightarrow> py_error + order list" where
  "update_order_totals order_totals [] = Inr []"
| "update_order_totals order_totals (order # orders) =
     (case order_totals (o_order_id order) of
        None \<Rightarrow> Inl KeyError
      | Some t \<Rightarrow>
          (case update_order_totals order_totals orders of
             Inl e \<Rightarrow> Inl e
           | Inr orders' \<Rightarrow> Inr (order\<lparr>o_total_amount := py_round t 2\<rparr> # orders')))"

definition generate_order_items :: "config \<Rightarrow> order list \<Rightarrow> product list \<Rightarrow> gen_state \<Rightarrow> py_error + ((order_item list \<times> order list) \<times> gen_state)" where
  "generate_order_items cfg orders products s =
     (case for_each (make_order_item orders products) [0..<NUM_ORDER_ITEMS cfg]
             (1, map_of (map (\<lambda>order. (o_order_id order, 0)) orders), s) of
        Inl e \<Rightarrow> Inl e
      | Inr (order_items, (item_id, order_totals, s1)) \<Rightarrow>
          (if order_items = [] then Inl IndexError
           else (case update_order_totals order_totals orders of
                   Inl e \<Rightarrow> Inl e
                 | Inr orders' \<Rightarrow>
                     (if orders' = [] then Inl IndexError
                      else Inr ((order_items, orders'),
                                s1\<lparr>files := (files s1)\<lparr>order_items_csv := Some order_items,
                                                        orders_csv := Some orders'\<rparr>\<rparr>)))))"

subsection \<open>\<^verbatim>\<open>generate_payments\<close>\<close>

definition payment_methods :: "string list" where
  "payment_methods =
     [''Credit Card'', ''Debit Card'', ''PayPal'', ''Apple Pay'', ''Google Pay'', ''Bank Transfer'']"

definition payment_statuses :: "payment_status list" where
  "payment_statuses = [Completed, PaymentPending, Failed, Refunded]"

definition payment_status_weights :: "rat list" where
  "payment_status_weights = [85 / 100, 5 / 100, 5 / 100, 5 / 100]"

fun make_payment :: "faker \<Rightarrow> nat \<times> order \<Rightarrow> gen_state \<Rightarrow> py_error + (payment \<times> gen_state)" where
  "make_payment fk (payment_id, order) s =
     (let order_date = o_order_date order;
          (minutes, r1) = random_randint 0 30 (rnd s);
          payment_date = order_date + timedelta_minutes minutes
      in case random_choices payment_statuses payment_status_weights r1 of
           Inl e \<Rightarrow> Inl e
         | Inr (status, r2) \<Rightarrow>
             (let payment_amount = o_total_amount order;
                  (rate, r3) = random_uniform (2 / 100) (3 / 100) r2;
                  transaction_fee = py_round (payment_amount * rate) 2
              in case random_choice payment_methods r3 of
                   Inl e \<Rightarrow> Inl e
                 | Inr (method, r4) \<Rightarrow>
                     (let (uuid, f1) = fake_uuid4 fk (fake s)
                      in Inr (\<lparr>pay_payment_id = payment_id, pay_order_id = o_order_id order,
                                pay_payment_date = payment_date, pay_payment_method = method,
                                pay_payment_amount = payment_amount,
                                pay_transaction_fee = transaction_fee, pay_status = status,
                                pay_transaction_id = str_upper (take 16 uuid)\<rparr>,
                              s\<lparr>rnd := r4, fake := f1\<rparr>))))"

text \<open>\<^verbatim>\<open>enumerate(orders, start=1)\<close> pairs the orders with 1, 2, ...\<close>

definition generate_payments :: "faker \<Rightarrow> order list \<Rightarrow> gen_state \<Rightarrow> py_error + (payment list \<times> gen_state)" where
  "generate_payments fk orders s =
     (case for_each (make_payment fk) (zip [1..<length orders + 1] orders) s of
        Inl e \<Rightarrow> Inl e
      | Inr (payments, s') \<Rightarrow>
          (if payments = [] then Inl IndexError
           else Inr (payments, s'\<lparr>files := (files s')\<lparr>payments_csv := Some payments\<rparr>\<rparr>)))"

subsection \<open>\<^verbatim>\<open>main\<close>\<close>

record dataset =
  ds_customers :: "customer list"
  ds_products :: "product list"
  ds_orders :: "order list"
  ds_order_items :: "order_item list"
  ds_payments :: "payment list"

text \<open>
  The five collections \<^verbatim>\<open>main\<close> holds when it is done; \<open>ds_orders\<close> is the
  list \<^verbatim>\<open>orders\<close> as \<^verbatim>\<open>generate_order_items\<close> left it.
\<close>

definition generate_data_main :: "faker \<Rightarrow> config \<Rightarrow> gen_state \<Rightarrow> py_error + (dataset \<times> gen_state)" where
  "generate_data_main fk cfg s0 =
     (case generate_customers fk cfg s0 of
        Inl e \<Rightarrow> Inl e
      | Inr (customers, s1) \<Rightarrow>
     (case generate_products fk cfg s1 of
        Inl e \<Rightarrow> Inl e
      | Inr (products, s2) \<Rightarrow>
     (case generate_orders fk cfg customers s2 of
        Inl e \<Rightarrow> Inl e
      | Inr (orders, s3) \<Rightarrow>
     (case generate_order_items cfg orders products s3 of
        Inl e \<Rightarrow> Inl e
      | Inr ((order_items, orders'), s4) \<Rightarrow>
     (case generate_payments fk orders' s4 of
        Inl e \<Rightarrow> Inl e
      | Inr (payments, s5) \<Rightarrow>
          Inr (\<lparr>ds_customers = customers, ds_products = products, ds_orders = orders',
                 ds_order_items = order_items, ds_payments = payments\<rparr>, s5))))))"


subsection \<open>Predicates on the generated records\<close>

text \<open>
  The dates of an order agree with its status: the shipping date is present exactly for
  shipped and delivered orders and is not before the order date, the delivery date is
  present exactly for delivered orders and is not before the shipping date.
\<close>

definition order_dates_ok :: "order \<Rightarrow> bool" where
  "order_dates_ok order \<longleftrightarrow>
     (o_shipped_date order \<noteq> None) = (o_status order = Shipped \<or> o_status order = Delivered) \<and>
     (o_delivery_date order \<noteq> None) = (o_status order = Delivered) \<and>
     (case o_shipped_date order of
        None \<Rightarrow> o_delivery_date order = None
      | Some sd \<Rightarrow> o_order_date order \<le> sd \<and>
          (case o_delivery_date order of None \<Rightarrow> True | Some dd \<Rightarrow> sd \<le> dd))"

text \<open>
  A payment belongs to an order: it carries the order's identifier, its amount is the
  order's total, and its fee is between 2% and 3% of that amount, rounded to 2 decimals.
\<close>

definition payment_matches :: "order \<Rightarrow> payment \<Rightarrow> bool" where
  "payment_matches order p \<longleftrightarrow>
     pay_order_id p = o_order_id order \<and> pay_payment_amount p = o_total_amount order \<and>
     (\<exists>rate. 2 / 100 \<le> rate \<and> rate \<le> 3 / 100 \<and>
        pay_transaction_fee p = py_round (o_total_amount order * rate) 2)"


subsection \<open>What a record owes to the \<^verbatim>\<open>random\<close> module alone\<close>









section \<open>The loader (\<^verbatim>\<open>load_database.py\<close>)\<close>

subsection \<open>Files, the database and the console\<close>

text \<open>
  A CSV file as \<^verbatim>\<open>csv.DictReader\<close> presents it: the header (\<open>None\<close> for an empty
  file, where \<^verbatim>\<open>fieldnames\<close> is \<^verbatim>\<open>None\<close>) and the data lines, each split into
  its fields. The column names of a header are taken to be distinct.
\<close>

record csv_file =
  fieldnames :: "string list option"
  csv_rows :: "string list list"

text \<open>
  The database holds, for every table that exists, the rows inserted so far; a row is the
  list of its column names with the values bound to them, \<open>None\<close> for \<^verbatim>\<open>NULL\<close>.
\<close>

type_synonym sql_value = "string option"
type_synonym db_row = "(string \<times> sql_value) list"
type_synonym database = "(string \<times> db_row list) list"

datatype sqlite_error = IntegrityError | OperationalError | ProgrammingError

datatype message =
    RemovedExistingDatabase
  | CreatedNewDatabase
  | ErrorConnecting
  | FailedToCreateConnection
  | CsvFileNotFound string
  | LoadedRows nat string
  | ErrorLoading string sqlite_error
  | UnexpectedErrorLoading string py_error
  | TotalRowsLoaded nat
  | ErrorDuringEtl py_error
  | DatabaseCreationComplete
  | ConnectionClosed
  | DatabaseFileNotCreated
  | DatabaseLoadingFailed
  | SkippingStep nat
  | PipelineFailedAtStep nat

text \<open>
  What the loader and the pipeline read and change: the files of \<^verbatim>\<open>data/\<close> by name,
  the file \<^verbatim>\<open>ecommerce.db\<close> (\<open>None\<close>: no such file; otherwise its committed
  content), the content as the loader's open connection sees it (the committed content
  and the changes of the transaction in progress), what was printed, the file
  \<^verbatim>\<open>output.csv\<close>, and whether \<^verbatim>\<open>sqlite3.connect\<close> fails. Reading and
  writing the files themselves is taken to succeed.
\<close>

record world =
  csv_dir :: "(string \<times> csv_file) list"
  db_file :: "database option"
  conn :: database
  console :: "message list"
  output_csv :: "db_row list option"
  db_unavailable :: bool

definition py_print :: "message \<Rightarrow> world \<Rightarrow> world" where
  "py_print m w = w\<lparr>console := console w @ [m]\<rparr>"

definition commit :: "world \<Rightarrow> world" where
  "commit w = w\<lparr>db_file := Some (conn w)\<rparr>"

definition rollback :: "world \<Rightarrow> world" where
  "rollback w = w\<lparr>conn := (case db_file w of None \<Rightarrow> [] | Some db \<Rightarrow> db)\<rparr>"

definition rows_of :: "database \<Rightarrow> string \<Rightarrow> db_row list" where
  "rows_of db table_name = (case map_of db table_name of None \<Rightarrow> [] | Some rows \<Rightarrow> rows)"

subsection \<open>\<^verbatim>\<open>create_connection\<close> and \<^verbatim>\<open>create_tables\<close>\<close>

text \<open>
  \<^verbatim>\<open>create_connection\<close> removes an existing database file and connects, which
  creates an empty database; the result is whether a connection is returned
  (\<^verbatim>\<open>None\<close> after an \<^verbatim>\<open>sqlite3.Error\<close>).
\<close>

definition create_connection :: "world \<Rightarrow> bool \<times> world" where
  "create_connection w =
     (let w1 = (if db_file w \<noteq> None
                then py_print RemovedExistingDatabase (w\<lparr>db_file := None\<rparr>) else w)
      in if db_unavailable w1 then (False, py_print ErrorConnecting w1)
         else (True, py_print CreatedNewDatabase (w1\<lparr>db_file := Some [], conn := []\<rparr>)))"

definition load_order :: "string list" where
  "load_order = [''customers'', ''products'', ''orders'', ''order_items'', ''payments'']"

text \<open>\<^verbatim>\<open>CREATE TABLE IF NOT EXISTS\<close>.\<close>

definition create_table :: "string \<Rightarrow> database \<Rightarrow> database" where
  "create_table table_name db =
     (if map_of db table_name = None then db @ [(table_name, [])] else db)"

text \<open>
  The five tables are created in the order of the script, the indexes (which hold no
  rows of their own) after them, and the connection commits.
\<close>

definition create_tables :: "world \<Rightarrow> world" where
  "create_tables w =
     commit (w\<lparr>conn := foldl (\<lambda>db table_name. create_table table_name db) (conn w)
                          [''customers'', ''products'', ''orders'', ''order_items'', ''payments'']\<rparr>)"

subsection \<open>\<^verbatim>\<open>load_csv_to_table\<close>\<close>

text \<open>
  What SQLite checks when a row is inserted (that the columns exist, and the
  \<^verbatim>\<open>NOT NULL\<close>, \<^verbatim>\<open>UNIQUE\<close>, \<^verbatim>\<open>PRIMARY KEY\<close>, \<^verbatim>\<open>CHECK\<close> and
  \<^verbatim>\<open>FOREIGN KEY\<close> constraints of the schema) is a parameter of the model: from the
  database, the table and the row, the error the statement raises, if any.
\<close>

type_synonym insert_check = "database \<Rightarrow> string \<Rightarrow> db_row \<Rightarrow> sqlite_error option"

text \<open>
  \<^verbatim>\<open>[val if val != '' else None for val in row.values()]\<close>: a line shorter than
  the header is filled with \<^verbatim>\<open>None\<close>; a line longer than the header gives one
  value too many (\<open>None\<close> here), and the statement then fails to bind.
\<close>

definition row_values :: "string list \<Rightarrow> string list \<Rightarrow> sql_value list option" where
  "row_values columns row =
     (if length columns < length row then None
      else Some (map (\<lambda>val. if val \<noteq> '''' then Some val else None) row
                 @ replicate (length columns - length row) None))"

definition append_row :: "string \<Rightarrow> db_row \<Rightarrow> database \<Rightarrow> database" where
  "append_row table_name row db =
     map (\<lambda>(t, rows). if t = table_name then (t, rows @ [row]) else (t, rows)) db"

text \<open>\<^verbatim>\<open>cursor.execute(insert_sql, values)\<close>.\<close>

definition execute_insert :: "insert_check \<Rightarrow> database \<Rightarrow> string \<Rightarrow> string list \<Rightarrow> sql_value list \<Rightarrow> sqlite_error + database" where
  "execute_insert check db table_name columns vals =
     (case map_of db table_name of
        None \<Rightarrow> Inl OperationalError
      | Some rows \<Rightarrow>
          (case check db table_name (zip columns vals) of
             Some e \<Rightarrow> Inl e
           | None \<Rightarrow> Inr (append_row table_name (zip columns vals) db)))"

text \<open>The loop over the lines of the file, with \<^verbatim>\<open>row_count\<close>.\<close>

fun insert_rows :: "insert_check \<Rightarrow> string \<Rightarrow> string list \<Rightarrow> string list list \<Rightarrow> database \<Rightarrow> nat \<Rightarrow> sqlite_error + (database \<times> nat)" where
  "insert_rows check table_name columns [] db row_count = Inr (db, row_count)"
| "insert_rows check table_name columns (row # rows) db row_count =
     (case row_values columns row of
        None \<Rightarrow> Inl ProgrammingError
      | Some vals \<Rightarrow>
          (case execute_insert check db table_name columns vals of
             Inl e \<Rightarrow> Inl e
           | Inr db' \<Rightarrow> insert_rows check table_name columns rows db' (row_count + 1)))"

text \<open>
  The result is the returned count. A missing file is reported and gives 0. With an empty
  file the header is \<^verbatim>\<open>None\<close> and building the statement raises
  \<^verbatim>\<open>TypeError\<close>, which the second handler catches; an \<^verbatim>\<open>sqlite3.Error\<close> of an
  insert is caught by the first. Both handlers roll back and return 0.
\<close>

definition load_csv_to_table :: "insert_check \<Rightarrow> world \<Rightarrow> string \<Rightarrow> string \<Rightarrow> nat \<times> world" where
  "load_csv_to_table check w table_name csv_name =
     (case map_of (csv_dir w) csv_name of
        None \<Rightarrow> (0, py_print (CsvFileNotFound (''data/'' @ csv_name)) w)
      | Some f \<Rightarrow>
          (case fieldnames f of
             None \<Rightarrow> (0, rollback (py_print (UnexpectedErrorLoading table_name TypeError) w))
           | Some columns \<Rightarrow>
               (case insert_rows check table_name columns (csv_rows f) (conn w) 0 of
                  Inl e \<Rightarrow> (0, rollback (py_print (ErrorLoading table_name e) w))
                | Inr (db, row_count) \<Rightarrow>
                    (row_count, py_print (LoadedRows row_count table_name) (commit (w\<lparr>conn := db\<rparr>))))))"

subsection \<open>\<^verbatim>\<open>main\<close>\<close>

definition CSV_FILES :: "(string \<times> string) list" where
  "CSV_FILES =
     [(''customers'', ''customers.csv''), (''products'', ''products.csv''),
      (''orders'', ''orders.csv''), (''order_items'', ''order_items.csv''),
      (''payments'', ''payments.csv'')]"

text \<open>
  The loop of \<^verbatim>\<open>main\<close> over \<^verbatim>\<open>load_order\<close>, with \<^verbatim>\<open>total_loaded\<close>; the first
  component is the exception that ended it, if any (a \<^verbatim>\<open>KeyError\<close> of
  \<^verbatim>\<open>CSV_FILES[table_name]\<close>).
\<close>

fun load_tables :: "insert_check \<Rightarrow> string list \<Rightarrow> nat \<Rightarrow> world \<Rightarrow> py_error option \<times> nat \<times> world" where
  "load_tables check [] total_loaded w = (None, total_loaded, w)"
| "load_tables check (table_name # table_names) total_loaded w =
     (case map_of CSV_FILES table_name of
        None \<Rightarrow> (Some KeyError, total_loaded, w)
      | Some csv_name \<Rightarrow>
          (case load_csv_to_table check w table_name csv_name of
             (rows, w') \<Rightarrow> load_tables check table_names (total_loaded + rows) w'))"

text \<open>
  \<^verbatim>\<open>verify_data\<close> and \<^verbatim>\<open>generate_summary_stats\<close> only query the database and
  print; whether one of them raises (formatting the \<^verbatim>\<open>NULL\<close> sum of an empty table,
  for one) is a parameter. Every exception of the body of \<^verbatim>\<open>main\<close> is caught by its
  \<^verbatim>\<open>except Exception\<close>, and the connection is closed at the end, which drops a
  transaction still in progress; so \<^verbatim>\<open>main\<close> returns to its caller in every case.
\<close>

definition load_database_main :: "insert_check \<Rightarrow> (database \<Rightarrow> py_error option) \<Rightarrow> world \<Rightarrow> world" where
  "load_database_main check reports w =
     (case create_connection w of
        (False, w1) \<Rightarrow> py_print FailedToCreateConnection w1
      | (True, w1) \<Rightarrow>
          (case load_tables check load_order 0 (create_tables w1) of
             (Some e, total_loaded, w2) \<Rightarrow> py_print ConnectionClosed (rollback (py_print (ErrorDuringEtl e) w2))
           | (None, total_loaded, w2) \<Rightarrow>
               (let w3 = py_print (TotalRowsLoaded total_loaded) w2
                in case reports (conn w3) of
                     Some e \<Rightarrow> py_print ConnectionClosed (rollback (py_print (ErrorDuringEtl e) w3))
                   | None \<Rightarrow> py_print ConnectionClosed (rollback (py_print DatabaseCreationComplete w3)))))"

section \<open>The pipeline (\<^verbatim>\<open>main.py\<close>)\<close>




text \<open>
  Step 2 runs the loader's \<^verbatim>\<open>main\<close> and then opens the database file itself: it
  succeeds when the file exists and all five tables can be counted
  (\<^verbatim>\<open>SELECT COUNT(*)\<close> raises for a table that does not exist).
\<close>

definition step_2_load_database :: "insert_check \<Rightarrow> (database \<Rightarrow> py_error option) \<Rightarrow> world \<Rightarrow> bool \<times> world" where
  "step_2_load_database check reports w =
     (let w' = load_database_main check reports w
      in case db_file w' of
           None \<Rightarrow> (False, py_print DatabaseFileNotCreated w')
         | Some db \<Rightarrow>
             (if list_all (\<lambda>table_name. map_of db table_name \<noteq> None)
                   [''customers'', ''products'', ''orders'', ''order_items'', ''payments'']
              then (True, w')
              else (False, py_print DatabaseLoadingFailed w')))"





subsection \<open>Reports of the loader\<close>

text \<open>
  The message \<^verbatim>\<open>load_csv_to_table\<close> prints about a table and its file: the file
  was not found, the rows were loaded, or the load failed.
\<close>

definition load_report :: "string \<Rightarrow> string \<Rightarrow> message \<Rightarrow> bool" where
  "load_report table_name csv_name m =
     (case m of
        CsvFileNotFound path \<Rightarrow> path = ''data/'' @ csv_name
      | LoadedRows n t \<Rightarrow> t = table_name
      | ErrorLoading t e \<Rightarrow> t = table_name
      | UnexpectedErrorLoading t e \<Rightarrow> t = table_name
      | _ \<Rightarrow> False)"

definition table_report :: "string \<Rightarrow> message \<Rightarrow> bool" where
  "table_report table_name m =
     (case map_of CSV_FILES table_name of
        None \<Rightarrow> False
      | Some csv_name \<Rightarrow> load_report table_name csv_name m)"

text \<open>The five tables of the schema, with no rows.\<close>

definition empty_tables :: database where
  "empty_tables = map (\<lambda>table_name. (table_name, [])) load_order"

section \<open>Sample inputs\<close>

text \<open>
  A Faker whose string providers return fixed values and whose
  \<^verbatim>\<open>date_time_between\<close> picks a second in the requested window around the
  clock's reading, together with a small configuration and an initial state; the model is
  run on them below.
\<close>

definition const_provider :: "string \<Rightarrow> nat stream \<Rightarrow> string \<times> nat stream" where
  "const_provider v g = (v, stl g)"

definition sample_faker :: faker where
  "sample_faker =
     \<lparr>fake_first_name = const_provider ''Ann'', fake_last_name = const_provider ''Lee'',
      fake_email = const_provider ''ann.lee@example.org'',
      fake_phone_number = const_provider ''555-0100'',
      fake_street_address = const_provider ''1 Main St'',
      fake_city = const_provider ''Springfield'', fake_state_abbr = const_provider ''IL'',
      fake_zipcode = const_provider ''62701'', fake_word = const_provider ''table'',
      fake_company = const_provider ''Acme Inc'',
      fake_uuid4 = const_provider ''0a1b2c3d-4e5f-4a6b-8c7d-0123456789ab'',
      fake_date_time_between =
        (\<lambda>now start_days end_days g.
           (now + 86400 * start_days + int (shd g) mod (86400 * (end_days - start_days) + 1), stl g))\<rparr>"

definition no_files :: data_files where
  "no_files = \<lparr>customers_csv = None, products_csv = None, orders_csv = None,
     order_items_csv = None, payments_csv = None\<rparr>"

definition sample_state :: "int \<Rightarrow> gen_state" where
  "sample_state now = \<lparr>rnd = sconst 0, fake = sconst 0, clock = sconst now, files = no_files\<rparr>"

definition sample_config :: config where
  "sample_config = \<lparr>NUM_CUSTOMERS = 3, NUM_PRODUCTS = 2, NUM_ORDERS = 2, NUM_ORDER_ITEMS = 3\<rparr>"

subsection \<open>A checker for the key constraints of the schema\<close>

text \<open>
  The constraints \<^verbatim>\<open>create_tables\<close> declares, as far as they concern keys: the
  columns of each table, those declared \<^verbatim>\<open>NOT NULL\<close>, those with a
  \<^verbatim>\<open>DEFAULT\<close>, those declared \<^verbatim>\<open>PRIMARY KEY\<close> or \<^verbatim>\<open>UNIQUE\<close>, and the
  foreign keys with the table and column they refer to.
\<close>

record table_schema =
  ts_columns :: "string list"
  ts_not_null :: "string list"
  ts_default :: "string list"
  ts_unique :: "string list"
  ts_foreign_keys :: "(string \<times> string \<times> string) list"

definition schema :: "(string \<times> table_schema) list" where
  "schema =
     [(''customers'',
       \<lparr>ts_columns = [''customer_id'', ''first_name'', ''last_name'', ''email'', ''phone'',
          ''address'', ''city'', ''state'', ''zip_code'', ''country'', ''created_at'',
          ''customer_segment''],
        ts_not_null = [''first_name'', ''last_name'', ''email''],
        ts_default = [],
        ts_unique = [''customer_id'', ''email''],
        ts_foreign_keys = []\<rparr>),
      (''products'',
       \<lparr>ts_columns = [''product_id'', ''product_name'', ''category'', ''price'', ''cost'',
          ''stock_quantity'', ''supplier'', ''created_at'', ''rating''],
        ts_not_null = [''product_name'', ''category'', ''price''],
        ts_default = [''stock_quantity''],
        ts_unique = [''product_id''],
        ts_foreign_keys = []\<rparr>),
      (''orders'',
       \<lparr>ts_columns = [''order_id'', ''customer_id'', ''order_date'', ''status'',
          ''shipping_address'', ''shipped_date'', ''delivery_date'', ''total_amount''],
        ts_not_null = [''customer_id'', ''order_date'', ''status''],
        ts_default = [''total_amount''],
        ts_unique = [''order_id''],
        ts_foreign_keys = [(''customer_id'', ''customers'', ''customer_id'')]\<rparr>),
      (''order_items'',
       \<lparr>ts_columns = [''order_item_id'', ''order_id'', ''product_id'', ''quantity'',
          ''unit_price'', ''discount'', ''total''],
        ts_not_null = [''order_id'', ''product_id'', ''quantity'', ''unit_price'', ''total''],
        ts_default = [''quantity'', ''discount''],
        ts_unique = [''order_item_id''],
        ts_foreign_keys = [(''order_id'', ''orders'', ''order_id''),
                           (''product_id'', ''products'', ''product_id'')]\<rparr>),
      (''payments'',
       \<lparr>ts_columns = [''payment_id'', ''order_id'', ''payment_date'', ''payment_method'',
          ''payment_amount'', ''transaction_fee'', ''status'', ''transaction_id''],
        ts_not_null = [''order_id'', ''payment_date'', ''payment_method'', ''payment_amount'',
          ''status''],
        ts_default = [''transaction_fee''],
        ts_unique = [''payment_id'', ''order_id'', ''transaction_id''],
        ts_foreign_keys = [(''order_id'', ''orders'', ''order_id'')]\<rparr>)]"

definition cell :: "db_row \<Rightarrow> string \<Rightarrow> sql_value" where
  "cell row column = (case map_of row column of None \<Rightarrow> None | Some v \<Rightarrow> v)"

definition column_values :: "database \<Rightarrow> string \<Rightarrow> string \<Rightarrow> string list" where
  "column_values db table_name column =
     List.map_filter (\<lambda>row. cell row column) (rows_of db table_name)"

text \<open>
  An instance of the checks on an insert, used to run the loader on sample files: an
  unknown table or column is an \<^verbatim>\<open>OperationalError\<close>; a \<^verbatim>\<open>NULL\<close> bound to a
  \<^verbatim>\<open>NOT NULL\<close> column (or such a column left out that has no default), a value
  already present in a unique column, and a foreign key with no matching parent row are
  an \<^verbatim>\<open>IntegrityError\<close>. Values are compared as the text of the file; column
  affinity and the \<^verbatim>\<open>CHECK\<close> on \<^verbatim>\<open>rating\<close> are outside this instance.
\<close>

definition schema_check :: insert_check where
  "schema_check db table_name row =
     (case map_of schema table_name of
        None \<Rightarrow> Some OperationalError
      | Some sc \<Rightarrow>
          (if \<not> list_all (\<lambda>(column, v). column \<in> set (ts_columns sc)) row
           then Some OperationalError
           else if list_ex (\<lambda>column. case map_of row column of
                                       None \<Rightarrow> column \<notin> set (ts_default sc)
                                     | Some v \<Rightarrow> v = None) (ts_not_null sc)
           then Some IntegrityError
           else if list_ex (\<lambda>column. case cell row column of
                                       None \<Rightarrow> False
                                     | Some v \<Rightarrow> v \<in> set (column_values db table_name column))
                     (ts_unique sc)
           then Some IntegrityError
           else if list_ex (\<lambda>(column, parent, parent_column). case cell row column of
                                       None \<Rightarrow> False
                                     | Some v \<Rightarrow> v \<notin> set (column_values db parent parent_column))
                     (ts_foreign_keys sc)
           then Some IntegrityError
           else None))"

subsection \<open>Sample files\<close>

definition customers_file :: csv_file where
  "customers_file =
     \<lparr>fieldnames = Some [''customer_id'', ''first_name'', ''last_name'', ''email''],
      csv_rows = [[''1'', ''Ann'', ''Lee'', ''ann@example.org''],
                  [''2'', ''Bob'', ''Ray'', ''bob@example.org'']]\<rparr>"

definition products_file :: csv_file where
  "products_file =
     \<lparr>fieldnames = Some [''product_id'', ''product_name'', ''category'', ''price''],
      csv_rows = [[''1'', ''Smart Table Electronics'', ''Electronics'', ''10.0'']]\<rparr>"

definition orders_file :: csv_file where
  "orders_file =
     \<lparr>fieldnames = Some [''order_id'', ''customer_id'', ''order_date'', ''status'',
                          ''shipped_date'', ''total_amount''],
      csv_rows = [[''1'', ''1'', ''2024-01-05 10:00:00'', ''Pending'', '''', ''29.0'']]\<rparr>"

definition order_items_file :: csv_file where
  "order_items_file =
     \<lparr>fieldnames = Some [''order_item_id'', ''order_id'', ''product_id'', ''quantity'',
                          ''unit_price'', ''discount'', ''total''],
      csv_rows = [[''1'', ''1'', ''1'', ''2'', ''10.0'', ''0.0'', ''20.0''],
                  [''2'', ''1'', ''1'', ''1'', ''10.0'', ''1.0'', ''9.0'']]\<rparr>"

text \<open>The same items, the second one referring to a product that does not exist.\<close>

definition orphan_items_file :: csv_file where
  "orphan_items_file =
     \<lparr>fieldnames = Some [''order_item_id'', ''order_id'', ''product_id'', ''quantity'',
                          ''unit_price'', ''discount'', ''total''],
      csv_rows = [[''1'', ''1'', ''1'', ''2'', ''10.0'', ''0.0'', ''20.0''],
                  [''2'', ''1'', ''7'', ''1'', ''10.0'', ''1.0'', ''9.0'']]\<rparr>"

definition payments_file :: csv_file where
  "payments_file =
     \<lparr>fieldnames = Some [''payment_id'', ''order_id'', ''payment_date'', ''payment_method'',
                          ''payment_amount'', ''status''],
      csv_rows = [[''1'', ''1'', ''2024-01-05 10:07:00'', ''PayPal'', ''29.0'', ''Completed'']]\<rparr>"

text \<open>A database file left by an earlier run, and the world a run starts in.\<close>

definition old_database :: database where
  "old_database =
     [(''customers'', [[(''customer_id'', Some ''9''), (''first_name'', Some ''Old''),
                        (''last_name'', Some ''Row''), (''email'', Some ''old@example.org'')]]),
      (''products'', []), (''orders'', []), (''order_items'', []), (''payments'', [])]"

definition sample_world :: "(string \<times> csv_file) list \<Rightarrow> world" where
  "sample_world files_present =
     \<lparr>csv_dir = files_present, db_file = Some old_database, conn = [], console = [],
      output_csv = None, db_unavailable = False\<rparr>"

text \<open>
  When the reports raise: \<^verbatim>\<open>generate_summary_stats\<close> formats the average of
  \<^verbatim>\<open>total_amount\<close> per order status and the sum of \<^verbatim>\<open>total_amount\<close> with
  \<^verbatim>\<open>:,.2f\<close>, which raises \<^verbatim>\<open>TypeError\<close> for the \<^verbatim>\<open>NULL\<close> that SQLite
  returns when the orders of a status, or all orders, have no total; that is the case, in
  particular, when the orders table is empty.
\<close>

definition summary_stats_error :: "database \<Rightarrow> py_error option" where
  "summary_stats_error db =
     (let orders = rows_of db ''orders''
      in if orders = [] \<or>
            list_ex (\<lambda>row. list_all (\<lambda>other. cell other ''total_amount'' = None)
                             (filter (\<lambda>other. cell other ''status'' = cell row ''status'') orders))
              orders
         then Some TypeError else None)"



text \<open>
  The database after the sample customers, products and orders were loaded, and a world
  in which the order items are to be loaded next, from the file with the orphan.
\<close>

definition parents_loaded :: database where
  "parents_loaded =
     [(''customers'',
       [[(''customer_id'', Some ''1''), (''first_name'', Some ''Ann''),
         (''last_name'', Some ''Lee''), (''email'', Some ''ann@example.org'')],
        [(''customer_id'', Some ''2''), (''first_name'', Some ''Bob''),
         (''last_name'', Some ''Ray''), (''email'', Some ''bob@example.org'')]]),
      (''products'',
       [[(''product_id'', Some ''1''), (''product_name'', Some ''Smart Table Electronics''),
         (''category'', Some ''Electronics''), (''price'', Some ''10.0'')]]),
      (''orders'',
       [[(''order_id'', Some ''1''), (''customer_id'', Some ''1''),
         (''order_date'', Some ''2024-01-05 10:00:00''), (''status'', Some ''Pending''),
         (''shipped_date'', None), (''total_amount'', Some ''29.0'')]]),
      (''order_items'', []),
      (''payments'', [])]"

definition orphan_world :: world where
  "orphan_world =
     \<lparr>csv_dir = [(''order_items.csv'', orphan_items_file)], db_file = Some parents_loaded,
      conn = parents_loaded, console = [], output_csv = None, db_unavailable = False\<rparr>"

text \<open>
  The files of a run in which \<^verbatim>\<open>customers.csv\<close> is missing, and the arguments
  \<^verbatim>\<open>--skip-data\<close>.
\<close>

definition files_without_customers :: "(string \<times> csv_file) list" where
  "files_without_customers =
     [(''products.csv'', products_file), (''orders.csv'', orders_file),
      (''order_items.csv'', order_items_file), (''payments.csv'', payments_file)]"


text \<open>A customers file in which two customers have the same email.\<close>

definition duplicate_email_file :: csv_file where
  "duplicate_email_file =
     \<lparr>fieldnames = Some [''customer_id'', ''first_name'', ''last_name'', ''email''],
      csv_rows = [[''1'', ''Ann'', ''Lee'', ''ann.lee@example.org''],
                  [''2'', ''Ann'', ''Lee'', ''ann.lee@example.org'']]\<rparr>"

section \<open>Properties of the generator\<close>

lemma for_each_list_all2:
  "for_each body xs s = Inr (ys, s') \<Longrightarrow>
   list_all2 (\<lambda>x y. \<exists>s1 s2. body x s1 = Inr (y, s2)) xs ys"
proof (induction xs arbitrary: s ys s')
  case Nil
  then show ?case by simp
next
  case (Cons x xs)
  from Cons.prems obtain y s1 ys1 where
    b: "body x s = Inr (y, s1)" and r: "for_each body xs s1 = Inr (ys1, s')" and e: "ys = y # ys1"
    by (auto split: sum.splits prod.splits)
  from Cons.IH [OF r] b e show ?case by auto
qed

lemma for_each_total:
  assumes "\<And>x s. x \<in> set xs \<Longrightarrow> I s \<Longrightarrow> \<exists>y s'. body x s = Inr (y, s') \<and> I s'"
    and "I s"
  shows "\<exists>ys s'. for_each body xs s = Inr (ys, s') \<and> I s'"
  using assms
proof (induction xs arbitrary: s)
  case Nil
  then show ?case by simp
next
  case (Cons x xs)
  from Cons.prems(1) [of x s] Cons.prems(2) obtain y s1 where
    b: "body x s = Inr (y, s1)" and i: "I s1" by auto
  have "\<exists>ys s'. for_each body xs s1 = Inr (ys, s') \<and> I s'"
    by (rule Cons.IH) (use Cons.prems(1) i in auto)
  then show ?case using b by auto
qed

lemma randbelow_less: "0 < n \<Longrightarrow> fst (randbelow n r) < n"
  by (simp add: randbelow_def)

lemma random_choice_mem: "random_choice xs r = Inr (x, r') \<Longrightarrow> x \<in> set xs"
  by (auto simp: random_choice_def randbelow_def split: if_splits)

lemma random_choice_total: "xs \<noteq> [] \<Longrightarrow> \<exists>x r'. random_choice xs r = Inr (x, r')"
  by (simp add: random_choice_def randbelow_def)

lemma random_random_bounds: "random_random r = (u, r') \<Longrightarrow> 0 \<le> u \<and> u < 1"
proof -
  assume "random_random r = (u, r')"
  then have u: "u = of_nat (shd r mod 2 ^ 53) / 2 ^ 53" by (auto simp: random_random_def)
  have "shd r mod 2 ^ 53 < (2::nat) ^ 53" by simp
  then have "(of_nat (shd r mod 2 ^ 53) :: rat) < of_nat (2 ^ 53)" by (simp only: of_nat_less_iff)
  then have "(of_nat (shd r mod 2 ^ 53) :: rat) < 2 ^ 53" by simp
  then show ?thesis unfolding u by (simp add: divide_less_eq)
qed

lemma random_uniform_bounds:
  assumes "random_uniform a b r = (u, r')" and "a \<le> b"
  shows "a \<le> u \<and> u \<le> b"
proof -
  from assms(1) obtain v where v: "random_random r = (v, r')" and u: "u = a + (b - a) * v"
    by (auto simp: random_uniform_def split: prod.splits)
  from random_random_bounds [OF v] have v01: "0 \<le> v" "v < 1" by auto
  have "0 \<le> (b - a) * v" using assms(2) v01 by simp
  moreover have "(b - a) * v \<le> (b - a) * 1"
    by (rule mult_left_mono) (use assms(2) v01 in auto)
  ultimately show ?thesis unfolding u by simp
qed

lemma bisect_right_le: "lo \<le> hi \<Longrightarrow> bisect_right a x lo hi \<le> hi"
proof (induction a x lo hi rule: bisect_right.induct)
  case (1 a x lo hi)
  show ?case
  proof (cases "lo < hi")
    case True
    then have m: "(lo + hi) div 2 < hi" "lo \<le> (lo + hi) div 2" by auto
    show ?thesis
    proof (cases "x < a ! ((lo + hi) div 2)")
      case t: True
      have "bisect_right a x lo ((lo + hi) div 2) \<le> (lo + hi) div 2"
        by (rule "1.IH"(1)) (use True t m in auto)
      then show ?thesis using True t m by (subst bisect_right.simps) simp
    next
      case f: False
      have "bisect_right a x ((lo + hi) div 2 + 1) hi \<le> hi"
        by (rule "1.IH"(2)) (use True f m in auto)
      then show ?thesis using True f by (subst bisect_right.simps) simp
    qed
  next
    case False
    then show ?thesis using "1.prems" by (subst bisect_right.simps) simp
  qed
qed

lemma length_accumulate: "length (accumulate acc ws) = length ws"
  by (induction ws arbitrary: acc) auto

lemma random_choices_mem: "random_choices population weights r = Inr (x, r') \<Longrightarrow> x \<in> set population"
  by (auto simp: random_choices_def Let_def split: if_splits prod.splits)

lemma random_choices_total:
  assumes "length weights = length population" and "population \<noteq> []"
    and "0 < last (accumulate 0 weights)"
  shows "\<exists>x r'. random_choices population weights r = Inr (x, r')"
proof -
  obtain u r' where u: "random_random r = (u, r')" by (cases "random_random r")
  let ?cum = "accumulate 0 weights"
  have "bisect_right ?cum (u * last ?cum) 0 (length population - 1) \<le> length population - 1"
    by (rule bisect_right_le) simp
  moreover have "0 < length population" using assms(2) by simp
  ultimately have "bisect_right ?cum (u * last ?cum) 0 (length population - 1) < length population"
    by linarith
  moreover have "?cum \<noteq> []" using assms(1,2) length_accumulate [of 0 weights] by auto
  ultimately show ?thesis
    using u assms by (simp add: random_choices_def Let_def length_accumulate)
qed

lemma random_choices_order_statuses:
  "\<exists>x r'. random_choices order_statuses order_status_weights r = Inr (x, r')"
  by (rule random_choices_total) (simp_all add: order_statuses_def order_status_weights_def)

lemma random_choices_payment_statuses:
  "\<exists>x r'. random_choices payment_statuses payment_status_weights r = Inr (x, r')"
  by (rule random_choices_total) (simp_all add: payment_statuses_def payment_status_weights_def)

lemma for_each_map:
  assumes "for_each body xs s = Inr (ys, s')"
    and "\<And>x s1 y s2. body x s1 = Inr (y, s2) \<Longrightarrow> f y = g x"
  shows "map f ys = map g xs"
proof -
  have "list_all2 (\<lambda>x y. f y = g x) xs ys"
    by (rule list_all2_mono [OF for_each_list_all2 [OF assms(1)]]) (use assms(2) in blast)
  then show ?thesis by (induction rule: list_all2_induct) auto
qed

lemma for_each_pred:
  assumes "for_each body xs s = Inr (ys, s')"
    and "\<And>x s1 y s2. body x s1 = Inr (y, s2) \<Longrightarrow> P y"
    and "y \<in> set ys"
  shows "P y"
proof -
  have "list_all2 (\<lambda>x y. P y) xs ys"
    by (rule list_all2_mono [OF for_each_list_all2 [OF assms(1)]]) (use assms(2) in blast)
  then have "\<forall>y\<in>set ys. P y" by (induction rule: list_all2_induct) auto
  then show ?thesis using assms(3) by blast
qed


lemma make_customer_total: "\<exists>c s'. make_customer fk cid s = Inr (c, s')"
proof -
  obtain x r' where "random_choice [''Regular'', ''Premium'', ''VIP'', ''New''] (rnd s) = Inr (x, r')"
    using random_choice_total [of "[''Regular'', ''Premium'', ''VIP'', ''New'']" "rnd s"] by auto
  then show ?thesis by (simp add: make_customer_def Let_def split: prod.splits)
qed


lemma make_order_props:
  assumes "make_order fk customers oid s = Inr (order, s')"
  shows "o_order_id order = oid" and "o_customer_id order \<in> c_customer_id ` set customers"
    and "order_dates_ok order" and "o_total_amount order = 0"
proof -
  from assms obtain customer r1 where c: "random_choice customers (rnd s) = Inr (customer, r1)"
    by (auto simp: make_order_def split: sum.splits)
  from random_choice_mem [OF c] have m: "customer \<in> set customers" .
  from assms c show "o_order_id order = oid"
    by (auto simp: make_order_def Let_def split: sum.splits prod.splits)
  from assms c m show "o_customer_id order \<in> c_customer_id ` set customers"
    by (auto simp: make_order_def Let_def split: sum.splits prod.splits)
  from assms c show "order_dates_ok order"
    by (auto simp: make_order_def Let_def order_dates_ok_def timedelta_days_def
        split: sum.splits prod.splits if_splits)
  from assms c show "o_total_amount order = 0"
    by (auto simp: make_order_def Let_def split: sum.splits prod.splits)
qed

lemma make_order_total:
  assumes "customers \<noteq> []"
  shows "\<exists>order s'. make_order fk customers oid s = Inr (order, s')"
proof -
  obtain customer r1 where c: "random_choice customers (rnd s) = Inr (customer, r1)"
    using random_choice_total [OF assms] by blast
  obtain d1 r2 where d1: "random_randint 1 7 r1 = (d1, r2)" by (cases "random_randint 1 7 r1")
  obtain d2 r3 where d2: "random_randint 2 10 r2 = (d2, r3)" by (cases "random_randint 2 10 r2")
  obtain st r4 where "random_choices order_statuses order_status_weights r3 = Inr (st, r4)"
    using random_choices_order_statuses by blast
  then show ?thesis using c d1 d2 by (simp add: make_order_def Let_def split: prod.splits)
qed

lemma generate_orders_props:
  assumes "generate_orders fk cfg customers s = Inr (orders, s')"
  shows "map o_order_id orders = [1..<NUM_ORDERS cfg + 1]"
    and "\<forall>order\<in>set orders. o_customer_id order \<in> c_customer_id ` set customers \<and> order_dates_ok order"
proof -
  from assms obtain s1 where
    l: "for_each (make_order fk customers) [1..<NUM_ORDERS cfg + 1] s = Inr (orders, s1)"
    by (auto simp: generate_orders_def split: sum.splits prod.splits if_splits)
  from for_each_map [OF l, of o_order_id "\<lambda>x. x"] make_order_props(1)
  show "map o_order_id orders = [1..<NUM_ORDERS cfg + 1]" by simp
  show "\<forall>order\<in>set orders. o_customer_id order \<in> c_customer_id ` set customers \<and> order_dates_ok order"
  proof
    fix order assume "order \<in> set orders"
    then show "o_customer_id order \<in> c_customer_id ` set customers \<and> order_dates_ok order"
      by (rule for_each_pred [OF l, rotated]) (use make_order_props in blast)
  qed
qed

lemma update_order_totals_map:
  "update_order_totals m orders = Inr orders' \<Longrightarrow>
   orders' = map (\<lambda>order. order\<lparr>o_total_amount := py_round (the (m (o_order_id order))) 2\<rparr>) orders"
  by (induction orders arbitrary: orders') (auto split: option.splits sum.splits)

lemma update_order_totals_total:
  "o_order_id ` set orders \<subseteq> dom m \<Longrightarrow> \<exists>orders'. update_order_totals m orders = Inr orders'"
  by (induction orders) (auto split: option.splits sum.splits)

lemma for_each_length: "for_each body xs s = Inr (ys, s') \<Longrightarrow> length ys = length xs"
  using for_each_list_all2 [of body xs s ys s'] by (auto dest: list_all2_lengthD)

lemma make_order_item_props:
  assumes "make_order_item orders products x (iid, m, s) = Inr (item, (iid', m', s'))"
  shows "oi_order_id item \<in> o_order_id ` set orders"
    and "oi_product_id item \<in> p_product_id ` set products"
    and "\<exists>v. m (oi_order_id item) = Some v \<and> m' = m(oi_order_id item \<mapsto> v + oi_total item)"
proof -
  from assms obtain order r1 where o: "random_choice orders (rnd s) = Inr (order, r1)"
    by (auto split: sum.splits)
  from assms o obtain product r2 where p: "random_choice products r1 = Inr (product, r2)"
    by (auto split: sum.splits)
  note mem = random_choice_mem [OF o] random_choice_mem [OF p]
  from assms o p mem show "oi_order_id item \<in> o_order_id ` set orders"
    by (auto simp: Let_def split: prod.splits option.splits)
  from assms o p mem show "oi_product_id item \<in> p_product_id ` set products"
    by (auto simp: Let_def split: prod.splits option.splits)
  from assms o p
  show "\<exists>v. m (oi_order_id item) = Some v \<and> m' = m(oi_order_id item \<mapsto> v + oi_total item)"
    by (auto simp: Let_def split: prod.splits option.splits)
qed

lemma make_order_item_total:
  assumes "orders \<noteq> []" and "products \<noteq> []" and "o_order_id ` set orders \<subseteq> dom m"
  shows "\<exists>item iid' m' s'. make_order_item orders products x (iid, m, s) = Inr (item, (iid', m', s'))
           \<and> o_order_id ` set orders \<subseteq> dom m'"
proof -
  obtain order r1 where o: "random_choice orders (rnd s) = Inr (order, r1)"
    using random_choice_total [OF assms(1)] by blast
  obtain product r2 where p: "random_choice products r1 = Inr (product, r2)"
    using random_choice_total [OF assms(2)] by blast
  from random_choice_mem [OF o] assms(3) obtain v where v: "m (o_order_id order) = Some v"
    by auto
  show ?thesis using o p v assms(3)
    by (auto simp: Let_def split: prod.splits)
qed

lemma items_loop_totals:
  "for_each (make_order_item orders products) xs (iid, m, s) = Inr (items, (iid', m', s')) \<Longrightarrow>
   m' k = map_option (\<lambda>v. v + sum_list (map oi_total (filter (\<lambda>i. oi_order_id i = k) items))) (m k)"
proof (induction xs arbitrary: iid m s items)
  case Nil
  then show ?case by (simp add: option.map_ident)
next
  case (Cons x xs)
  from Cons.prems obtain item iid1 m1 s1 rest where
    b: "make_order_item orders products x (iid, m, s) = Inr (item, (iid1, m1, s1))" and
    r: "for_each (make_order_item orders products) xs (iid1, m1, s1) = Inr (rest, (iid', m', s'))" and
    e: "items = item # rest"
    by (auto split: sum.splits prod.splits)
  from make_order_item_props(3) [OF b] obtain v where
    v: "m (oi_order_id item) = Some v" and m1: "m1 = m(oi_order_id item \<mapsto> v + oi_total item)"
    by blast
  from Cons.IH [OF r] have
    ih: "m' k = map_option (\<lambda>v. v + sum_list (map oi_total (filter (\<lambda>i. oi_order_id i = k) rest))) (m1 k)" .
  show ?case
  proof (cases "oi_order_id item = k")
    case True
    then show ?thesis using ih v m1 e by (simp add: add.assoc)
  next
    case False
    then show ?thesis using ih m1 e by simp
  qed
qed

lemma map_of_zero_totals:
  "map_of (map (\<lambda>order. (o_order_id order, 0::rat)) orders) k =
     (if k \<in> o_order_id ` set orders then Some 0 else None)"
  by (induction orders) auto

lemma generate_order_items_props:
  assumes "generate_order_items cfg orders products s = Inr ((items, orders'), s')"
  shows "orders' = map (\<lambda>order. order\<lparr>o_total_amount :=
            py_round (sum_list (map oi_total (filter (\<lambda>i. oi_order_id i = o_order_id order) items))) 2\<rparr>) orders"
    and "\<forall>item\<in>set items. oi_order_id item \<in> o_order_id ` set orders \<and>
            oi_product_id item \<in> p_product_id ` set products"
    and "length items = NUM_ORDER_ITEMS cfg"
proof -
  let ?m0 = "map_of (map (\<lambda>order. (o_order_id order, 0::rat)) orders)"
  from assms obtain iid' m' s1 where
    l: "for_each (make_order_item orders products) [0..<NUM_ORDER_ITEMS cfg] (1, ?m0, s) =
          Inr (items, (iid', m', s1))" and
    u: "update_order_totals m' orders = Inr orders'"
    by (auto simp: generate_order_items_def split: sum.splits prod.splits if_splits)
  have tot: "the (m' (o_order_id order)) =
      sum_list (map oi_total (filter (\<lambda>i. oi_order_id i = o_order_id order) items))"
    if "order \<in> set orders" for order
    using items_loop_totals [OF l, of "o_order_id order"] that by (simp add: map_of_zero_totals)
  show "orders' = map (\<lambda>order. order\<lparr>o_total_amount :=
            py_round (sum_list (map oi_total (filter (\<lambda>i. oi_order_id i = o_order_id order) items))) 2\<rparr>) orders"
    unfolding update_order_totals_map [OF u] using tot by simp
  show "\<forall>item\<in>set items. oi_order_id item \<in> o_order_id ` set orders \<and>
            oi_product_id item \<in> p_product_id ` set products"
  proof
    fix item assume "item \<in> set items"
    then show "oi_order_id item \<in> o_order_id ` set orders \<and>
        oi_product_id item \<in> p_product_id ` set products"
    proof (rule for_each_pred [OF l, rotated])
      fix x s1 y s2
      assume "make_order_item orders products x s1 = Inr (y, s2)"
      then show "oi_order_id y \<in> o_order_id ` set orders \<and>
          oi_product_id y \<in> p_product_id ` set products"
        using make_order_item_props(1,2) [of orders products x "fst s1" "fst (snd s1)" "snd (snd s1)"
            y "fst s2" "fst (snd s2)" "snd (snd s2)"]
        by simp
    qed
  qed
  from for_each_length [OF l] show "length items = NUM_ORDER_ITEMS cfg" by simp
qed

lemma py_round_zero: "py_round 0 n = 0"
  by (simp add: py_round_def round_half_even_def)

lemma make_payment_props:
  assumes "make_payment fk (pid, order) s = Inr (p, s')"
  shows "pay_payment_id p = pid" and "pay_order_id p = o_order_id order"
    and "pay_payment_amount p = o_total_amount order"
    and "\<exists>rate. 2 / 100 \<le> rate \<and> rate \<le> 3 / 100 \<and>
           pay_transaction_fee p = py_round (o_total_amount order * rate) 2"
proof -
  from assms show "pay_payment_id p = pid" "pay_order_id p = o_order_id order"
    "pay_payment_amount p = o_total_amount order"
    by (auto simp: Let_def split: prod.splits sum.splits)
  obtain minutes r1 where r1: "random_randint 0 30 (rnd s) = (minutes, r1)"
    by (cases "random_randint 0 30 (rnd s)")
  from assms r1 obtain status r2 where
    r2: "random_choices payment_statuses payment_status_weights r1 = Inr (status, r2)"
    by (auto simp: Let_def split: prod.splits sum.splits)
  obtain rate r3 where r3: "random_uniform (2 / 100) (3 / 100) r2 = (rate, r3)"
    by (cases "random_uniform (2 / 100) (3 / 100) r2")
  from random_uniform_bounds [OF r3] have "2 / 100 \<le> rate \<and> rate \<le> 3 / 100" by simp
  moreover from assms r1 r2 r3 have "pay_transaction_fee p = py_round (o_total_amount order * rate) 2"
    by (auto simp: Let_def split: prod.splits sum.splits)
  ultimately show "\<exists>rate. 2 / 100 \<le> rate \<and> rate \<le> 3 / 100 \<and>
           pay_transaction_fee p = py_round (o_total_amount order * rate) 2" by blast
qed

lemma make_payment_total: "\<exists>p s'. make_payment fk (pid, order) s = Inr (p, s')"
proof -
  obtain minutes r1 where r1: "random_randint 0 30 (rnd s) = (minutes, r1)"
    by (cases "random_randint 0 30 (rnd s)")
  obtain status r2 where
    r2: "random_choices payment_statuses payment_status_weights r1 = Inr (status, r2)"
    using random_choices_payment_statuses by blast
  obtain rate r3 where r3: "random_uniform (2 / 100) (3 / 100) r2 = (rate, r3)"
    by (cases "random_uniform (2 / 100) (3 / 100) r2")
  obtain chosen r4 where "random_choice payment_methods r3 = Inr (chosen, r4)"
    using random_choice_total [of payment_methods r3] by (auto simp: payment_methods_def)
  then show ?thesis using r1 r2 r3 by (simp add: Let_def split: prod.splits)
qed

lemma list_all2_zip_left:
  assumes "list_all2 R (zip xs ys) zs" and "length xs = length ys"
  shows "list_all2 (\<lambda>y z. \<exists>x. R (x, y) z) ys zs"
proof -
  from assms have len: "length zs = length ys" by (auto dest: list_all2_lengthD)
  show ?thesis
  proof (rule list_all2_all_nthI)
    show "length ys = length zs" using len by simp
  next
    fix n assume n: "n < length ys"
    then have "R (zip xs ys ! n) (zs ! n)"
      using assms by (auto dest: list_all2_nthD)
    then show "\<exists>x. R (x, ys ! n) (zs ! n)" using n assms(2) by auto
  qed
qed

lemma generate_payments_props:
  assumes "generate_payments fk orders s = Inr (payments, s')"
  shows "list_all2 payment_matches orders payments"
proof -
  from assms obtain s1 where
    l: "for_each (make_payment fk) (zip [1..<length orders + 1] orders) s = Inr (payments, s1)"
    by (auto simp: generate_payments_def split: sum.splits prod.splits if_splits)
  have "list_all2 (\<lambda>y z. \<exists>x. (\<exists>s1 s2. make_payment fk (x, y) s1 = Inr (z, s2))) orders payments"
    by (rule list_all2_zip_left [OF for_each_list_all2 [OF l]]) (simp del: upt_Suc)
  then show ?thesis
    by (rule list_all2_mono) (use make_payment_props in \<open>auto simp: payment_matches_def\<close>)
qed

lemma categories_tables:
  "\<forall>c\<in>set (map fst categories). \<exists>a b ps.
      map_of categories c = Some (a, b) \<and> map_of product_prefixes c = Some ps \<and> ps \<noteq> []"
  by (simp add: categories_def product_prefixes_def)

lemma make_product_id: "make_product fk pid s = Inr (p, s') \<Longrightarrow> p_product_id p = pid"
  by (auto simp: make_product_def Let_def split: prod.splits sum.splits option.splits)

lemma make_product_total: "\<exists>p s'. make_product fk pid s = Inr (p, s')"
proof -
  obtain category r1 where c: "random_choice (map fst categories) (rnd s) = Inr (category, r1)"
    using random_choice_total [of "map fst categories" "rnd s"] by (auto simp: categories_def)
  from random_choice_mem [OF c] categories_tables obtain a b ps where
    t: "map_of categories category = Some (a, b)" "map_of product_prefixes category = Some ps"
      "ps \<noteq> []" by blast
  obtain prefix r2 where "random_choice ps r1 = Inr (prefix, r2)"
    using random_choice_total [OF t(3)] by blast
  then show ?thesis using c t by (simp add: make_product_def Let_def split: prod.splits)
qed

lemma generate_customers_total:
  assumes "0 < NUM_CUSTOMERS cfg"
  shows "\<exists>customers s'. generate_customers fk cfg s = Inr (customers, s') \<and> customers \<noteq> []"
proof -
  obtain ys s1 where l: "for_each (make_customer fk) [1..<NUM_CUSTOMERS cfg + 1] s = Inr (ys, s1)"
    using for_each_total [of "[1..<NUM_CUSTOMERS cfg + 1]" "\<lambda>_. True" "make_customer fk" s]
      make_customer_total by blast
  from for_each_length [OF l] assms have "ys \<noteq> []" by auto
  then show ?thesis using l by (simp add: generate_customers_def)
qed

lemma generate_products_total:
  assumes "0 < NUM_PRODUCTS cfg"
  shows "\<exists>products s'. generate_products fk cfg s = Inr (products, s') \<and> products \<noteq> []"
proof -
  obtain ys s1 where l: "for_each (make_product fk) [1..<NUM_PRODUCTS cfg + 1] s = Inr (ys, s1)"
    using for_each_total [of "[1..<NUM_PRODUCTS cfg + 1]" "\<lambda>_. True" "make_product fk" s]
      make_product_total by blast
  from for_each_length [OF l] assms have "ys \<noteq> []" by auto
  then show ?thesis using l by (simp add: generate_products_def)
qed

lemma generate_orders_total:
  assumes "0 < NUM_ORDERS cfg" and "customers \<noteq> []"
  shows "\<exists>orders s'. generate_orders fk cfg customers s = Inr (orders, s') \<and> orders \<noteq> []"
proof -
  obtain ys s1 where l: "for_each (make_order fk customers) [1..<NUM_ORDERS cfg + 1] s = Inr (ys, s1)"
    using for_each_total [of "[1..<NUM_ORDERS cfg + 1]" "\<lambda>_. True" "make_order fk customers" s]
      make_order_total [OF assms(2)] by blast
  from for_each_length [OF l] assms have "ys \<noteq> []" by auto
  then show ?thesis using l by (simp add: generate_orders_def)
qed

lemma generate_order_items_total:
  assumes "0 < NUM_ORDER_ITEMS cfg" and "orders \<noteq> []" and "products \<noteq> []"
  shows "\<exists>items orders' s'. generate_order_items cfg orders products s = Inr ((items, orders'), s')"
proof -
  let ?m0 = "map_of (map (\<lambda>order. (o_order_id order, 0::rat)) orders)"
  let ?I = "\<lambda>st :: item_loop_state. o_order_id ` set orders \<subseteq> dom (fst (snd st))"
  have i0: "?I (1, ?m0, s)" by (auto simp: map_of_zero_totals dom_def)
  have step: "\<exists>y st'. make_order_item orders products x st = Inr (y, st') \<and> ?I st'" if "?I st" for x st
    using make_order_item_total [OF assms(2,3), of "fst (snd st)" x "fst st" "snd (snd st)"] that
    by auto
  obtain items st' where
    l: "for_each (make_order_item orders products) [0..<NUM_ORDER_ITEMS cfg] (1, ?m0, s) = Inr (items, st')"
    and i: "?I st'"
    using for_each_total [of "[0..<NUM_ORDER_ITEMS cfg]" ?I "make_order_item orders products" "(1, ?m0, s)"]
      step i0 by blast
  from for_each_length [OF l] assms(1) have ne: "items \<noteq> []" by auto
  obtain orders' where u: "update_order_totals (fst (snd st')) orders = Inr orders'"
    using update_order_totals_total [OF i] by blast
  from update_order_totals_map [OF u] assms(2) have "orders' \<noteq> []" by simp
  then show ?thesis using l ne u
    by (cases st') (auto simp: generate_order_items_def)
qed

lemma generate_payments_total:
  assumes "orders \<noteq> []"
  shows "\<exists>payments s'. generate_payments fk orders s = Inr (payments, s')"
proof -
  have step: "\<exists>y s'. make_payment fk x s = Inr (y, s')" for x s
    using make_payment_total [of fk "fst x" "snd x" s] by simp
  obtain ys s1 where
    l: "for_each (make_payment fk) (zip [1..<length orders + 1] orders) s = Inr (ys, s1)"
    using for_each_total [of "zip [1..<length orders + 1] orders" "\<lambda>_. True" "make_payment fk" s]
      step by blast
  from for_each_length [OF l] assms have "ys \<noteq> []" by (auto simp del: upt_Suc)
  then show ?thesis using l by (simp add: generate_payments_def)
qed

lemma generate_data_main_total:
  assumes "0 < NUM_CUSTOMERS cfg" and "0 < NUM_PRODUCTS cfg" and "0 < NUM_ORDERS cfg"
    and "0 < NUM_ORDER_ITEMS cfg"
  shows "\<exists>ds s'. generate_data_main fk cfg s = Inr (ds, s')"
proof -
  obtain customers s1 where c: "generate_customers fk cfg s = Inr (customers, s1)" "customers \<noteq> []"
    using generate_customers_total [OF assms(1)] by blast
  obtain products s2 where p: "generate_products fk cfg s1 = Inr (products, s2)" "products \<noteq> []"
    using generate_products_total [OF assms(2)] by blast
  obtain orders s3 where o: "generate_orders fk cfg customers s2 = Inr (orders, s3)" "orders \<noteq> []"
    using generate_orders_total [OF assms(3) c(2)] by blast
  obtain items orders' s4 where
    i: "generate_order_items cfg orders products s3 = Inr ((items, orders'), s4)"
    using generate_order_items_total [OF assms(4) o(2) p(2)] by blast
  from generate_order_items_props(1) [OF i] o(2) have "orders' \<noteq> []" by simp
  then obtain payments s5 where "generate_payments fk orders' s4 = Inr (payments, s5)"
    using generate_payments_total by blast
  then show ?thesis using c p o i by (simp add: generate_data_main_def)
qed

text \<open>What a successful run of main went through, stage by stage.\<close>

lemma generate_data_main_stages:
  assumes "generate_data_main fk cfg s = Inr (ds, s')"
  obtains s1 s2 orders s3 s4 where
    "generate_customers fk cfg s = Inr (ds_customers ds, s1)"
    "generate_products fk cfg s1 = Inr (ds_products ds, s2)"
    "generate_orders fk cfg (ds_customers ds) s2 = Inr (orders, s3)"
    "generate_order_items cfg orders (ds_products ds) s3 = Inr ((ds_order_items ds, ds_orders ds), s4)"
    "generate_payments fk (ds_orders ds) s4 = Inr (ds_payments ds, s')"
  using assms by (auto simp: generate_data_main_def split: sum.splits prod.splits)

lemma sample_run:
  "\<exists>ds s'. generate_data_main sample_faker sample_config (sample_state now) = Inr (ds, s')"
  by (rule generate_data_main_total) (simp_all add: sample_config_def)

lemma generate_data_main_orders:
  assumes "generate_data_main fk cfg s = Inr (ds, s')"
  shows "map o_order_id (ds_orders ds) = [1..<NUM_ORDERS cfg + 1]"
    and "\<forall>order\<in>set (ds_orders ds).
           o_customer_id order \<in> c_customer_id ` set (ds_customers ds) \<and> order_dates_ok order"
    and "\<forall>order\<in>set (ds_orders ds). o_total_amount order =
           py_round (sum_list (map oi_total
             (filter (\<lambda>item. oi_order_id item = o_order_id order) (ds_order_items ds)))) 2"
proof -
  from assms obtain s1 s2 orders s3 s4 where
    o: "generate_orders fk cfg (ds_customers ds) s2 = Inr (orders, s3)" and
    i: "generate_order_items cfg orders (ds_products ds) s3 = Inr ((ds_order_items ds, ds_orders ds), s4)"
    by (rule generate_data_main_stages)
  define upd :: "order \<Rightarrow> order" where "upd = (\<lambda>order. order\<lparr>o_total_amount :=
      py_round (sum_list (map oi_total
        (filter (\<lambda>item. oi_order_id item = o_order_id order) (ds_order_items ds)))) 2\<rparr>)"
  have u: "ds_orders ds = map upd orders"
    unfolding upd_def by (rule generate_order_items_props(1) [OF i])
  have id: "o_order_id (upd order) = o_order_id order" for order by (simp add: upd_def)
  show "map o_order_id (ds_orders ds) = [1..<NUM_ORDERS cfg + 1]"
    unfolding u using generate_orders_props(1) [OF o] by (simp add: comp_def id)
  show "\<forall>order\<in>set (ds_orders ds).
           o_customer_id order \<in> c_customer_id ` set (ds_customers ds) \<and> order_dates_ok order"
  proof
    fix order assume "order \<in> set (ds_orders ds)"
    then obtain o0 where o0: "o0 \<in> set orders" and e: "order = upd o0" unfolding u by auto
    from generate_orders_props(2) [OF o] o0 have
      "o_customer_id o0 \<in> c_customer_id ` set (ds_customers ds)" "order_dates_ok o0" by auto
    then show "o_customer_id order \<in> c_customer_id ` set (ds_customers ds) \<and> order_dates_ok order"
      unfolding e by (simp add: upd_def order_dates_ok_def split: option.splits)
  qed
  show "\<forall>order\<in>set (ds_orders ds). o_total_amount order =
           py_round (sum_list (map oi_total
             (filter (\<lambda>item. oi_order_id item = o_order_id order) (ds_order_items ds)))) 2"
  proof
    fix order assume "order \<in> set (ds_orders ds)"
    then obtain o0 where e: "order = upd o0" unfolding u by auto
    show "o_total_amount order =
           py_round (sum_list (map oi_total
             (filter (\<lambda>item. oi_order_id item = o_order_id order) (ds_order_items ds)))) 2"
      unfolding e by (simp add: upd_def)
  qed
qed

lemma generate_data_main_items:
  assumes "generate_data_main fk cfg s = Inr (ds, s')"
  shows "\<forall>item\<in>set (ds_order_items ds). oi_order_id item \<in> o_order_id ` set (ds_orders ds) \<and>
            oi_product_id item \<in> p_product_id ` set (ds_products ds)"
proof -
  from assms obtain s1 s2 orders s3 s4 where
    i: "generate_order_items cfg orders (ds_products ds) s3 = Inr ((ds_order_items ds, ds_orders ds), s4)"
    by (rule generate_data_main_stages)
  have "o_order_id ` set (ds_orders ds) = o_order_id ` set orders"
    unfolding generate_order_items_props(1) [OF i] by (simp add: image_image)
  then show ?thesis using generate_order_items_props(2) [OF i] by simp
qed

lemma generate_data_main_payments:
  assumes "generate_data_main fk cfg s = Inr (ds, s')"
  shows "list_all2 payment_matches (ds_orders ds) (ds_payments ds)"
proof -
  from assms obtain s1 s2 orders s3 s4 where
    "generate_payments fk (ds_orders ds) s4 = Inr (ds_payments ds, s')"
    by (rule generate_data_main_stages)
  then show ?thesis by (rule generate_payments_props)
qed




section \<open>The claims about the generator\<close>

text \<open>
  Claim C1. In the dataset \<^verbatim>\<open>main\<close> ends with, the \<^verbatim>\<open>total_amount\<close> of
  every order is the sum of the \<^verbatim>\<open>total\<close> of the order items that carry the
  order's identifier, rounded to 2 decimals, and it is 0 for an order that no item
  refers to.
\<close>

theorem order_total_is_rounded_item_sum:
  assumes "generate_data_main fk cfg s = Inr (ds, s')" and "order \<in> set (ds_orders ds)"
  shows "o_total_amount order =
           py_round (sum_list (map oi_total
             (filter (\<lambda>item. oi_order_id item = o_order_id order) (ds_order_items ds)))) 2 \<and>
         ((\<forall>item\<in>set (ds_order_items ds). oi_order_id item \<noteq> o_order_id order) \<longrightarrow>
            o_total_amount order = 0)"
proof -
  let ?mine = "filter (\<lambda>item. oi_order_id item = o_order_id order) (ds_order_items ds)"
  from generate_data_main_orders(3) [OF assms(1)] assms(2)
  have t: "o_total_amount order = py_round (sum_list (map oi_total ?mine)) 2" by blast
  have "o_total_amount order = 0"
    if "\<forall>item\<in>set (ds_order_items ds). oi_order_id item \<noteq> o_order_id order"
  proof -
    from that have "?mine = []" by (auto simp: filter_empty_conv)
    then show ?thesis using t by (simp add: py_round_zero)
  qed
  with t show ?thesis by blast
qed

text \<open>
  The generator runs on the sample input, and the order numbered 1 has the rounded sum
  of its items as its total.
\<close>

theorem order_total_is_rounded_item_sum_witness:
  "\<exists>ds s'. generate_data_main sample_faker sample_config (sample_state 1700000000) = Inr (ds, s') \<and>
     (\<exists>order\<in>set (ds_orders ds). o_order_id order = 1 \<and>
        o_total_amount order =
          py_round (sum_list (map oi_total
            (filter (\<lambda>item. oi_order_id item = 1) (ds_order_items ds)))) 2)"
proof -
  obtain ds s' where
    r: "generate_data_main sample_faker sample_config (sample_state 1700000000) = Inr (ds, s')"
    using sample_run by blast
  from generate_data_main_orders(1) [OF r] have "1 \<in> set (map o_order_id (ds_orders ds))"
    by (simp add: sample_config_def)
  then obtain order where o: "order \<in> set (ds_orders ds)" "o_order_id order = 1" by auto
  from order_total_is_rounded_item_sum [OF r o(1)] o r show ?thesis by auto
qed



text \<open>
  Claim C3. Every order's \<^verbatim>\<open>customer_id\<close> is the identifier of a generated customer,
  every order item's \<^verbatim>\<open>order_id\<close> and \<^verbatim>\<open>product_id\<close> are identifiers of a
  generated order and product, every payment's \<^verbatim>\<open>order_id\<close> is the identifier of
  a generated order, and no two payments have the same \<^verbatim>\<open>order_id\<close>.
\<close>

theorem foreign_keys_resolve:
  assumes "generate_data_main fk cfg s = Inr (ds, s')"
  shows "(\<forall>order\<in>set (ds_orders ds). o_customer_id order \<in> c_customer_id ` set (ds_customers ds)) \<and>
         (\<forall>item\<in>set (ds_order_items ds).
            oi_order_id item \<in> o_order_id ` set (ds_orders ds) \<and>
            oi_product_id item \<in> p_product_id ` set (ds_products ds)) \<and>
         (\<forall>p\<in>set (ds_payments ds). pay_order_id p \<in> o_order_id ` set (ds_orders ds)) \<and>
         distinct (map pay_order_id (ds_payments ds))"
proof -
  note m = generate_data_main_payments [OF assms]
  have "list_all2 (\<lambda>order p. pay_order_id p = o_order_id order) (ds_orders ds) (ds_payments ds)"
    by (rule list_all2_mono [OF m]) (simp add: payment_matches_def)
  then have e: "map pay_order_id (ds_payments ds) = map o_order_id (ds_orders ds)"
    by (induction rule: list_all2_induct) auto
  have d: "distinct (map pay_order_id (ds_payments ds))"
    unfolding e generate_data_main_orders(1) [OF assms] by (rule distinct_upt)
  have "set (map pay_order_id (ds_payments ds)) = set (map o_order_id (ds_orders ds))"
    by (simp only: e)
  then have p: "\<forall>p\<in>set (ds_payments ds). pay_order_id p \<in> o_order_id ` set (ds_orders ds)"
    by auto
  from generate_data_main_orders(2) [OF assms] generate_data_main_items [OF assms] p d
  show ?thesis by blast
qed

text \<open>
  On the sample input the three order items refer to generated orders and products and
  the payments have distinct order identifiers.
\<close>

theorem foreign_keys_resolve_witness:
  "\<exists>ds s'. generate_data_main sample_faker sample_config (sample_state 1700000000) = Inr (ds, s') \<and>
     length (ds_order_items ds) = 3 \<and>
     list_all (\<lambda>item. oi_order_id item \<in> o_order_id ` set (ds_orders ds) \<and>
                 oi_product_id item \<in> p_product_id ` set (ds_products ds)) (ds_order_items ds) \<and>
     distinct (map pay_order_id (ds_payments ds))"
proof -
  obtain ds s' where
    r: "generate_data_main sample_faker sample_config (sample_state 1700000000) = Inr (ds, s')"
    using sample_run by blast
  from r obtain s1 s2 orders s3 s4 where
    "generate_order_items sample_config orders (ds_products ds) s3 =
       Inr ((ds_order_items ds, ds_orders ds), s4)"
    by (rule generate_data_main_stages)
  from generate_order_items_props(3) [OF this] have "length (ds_order_items ds) = 3"
    by (simp add: sample_config_def)
  with foreign_keys_resolve [OF r] r show ?thesis by (auto simp: list_all_iff)
qed



section \<open>Properties of the loader and the pipeline\<close>

lemma map_of_append_row:
  "map_of (append_row table_name row db) t =
     (if t = table_name then map_option (\<lambda>rows. rows @ [row]) (map_of db t) else map_of db t)"
  by (induction db) (auto simp: append_row_def)

lemma execute_insert_Inr:
  assumes "execute_insert check db table_name columns vals = Inr db'"
  shows "map_of db table_name \<noteq> None"
    and "map_of db' t =
      (if t = table_name then map_option (\<lambda>rows. rows @ [zip columns vals]) (map_of db t)
       else map_of db t)"
  using assms
  by (auto simp: execute_insert_def map_of_append_row split: option.splits)

lemma insert_rows_Inr:
  "insert_rows check table_name columns rows db n = Inr (db', n') \<Longrightarrow>
   n' = n + length rows \<and>
   (\<forall>t. t \<noteq> table_name \<longrightarrow> map_of db' t = map_of db t) \<and>
   (\<forall>t. (map_of db' t = None) = (map_of db t = None)) \<and>
   length (rows_of db' table_name) = length (rows_of db table_name) + length rows"
proof (induction rows arbitrary: db n)
  case Nil
  then show ?case by simp
next
  case (Cons row rows)
  from Cons.prems obtain vals db1 where
    e: "execute_insert check db table_name columns vals = Inr db1" and
    r: "insert_rows check table_name columns rows db1 (n + 1) = Inr (db', n')"
    by (auto split: option.splits sum.splits)
  note m = execute_insert_Inr(2) [OF e]
  from execute_insert_Inr(1) [OF e] m [of table_name]
  have l: "length (rows_of db1 table_name) = length (rows_of db table_name) + 1"
    by (auto simp: rows_of_def)
  have o: "map_of db1 t = map_of db t" if "t \<noteq> table_name" for t using m [of t] that by simp
  have d: "(map_of db1 t = None) = (map_of db t = None)" for t using m [of t] by simp
  from Cons.IH [OF r] l o d show ?case by simp
qed

lemma load_csv_to_table_props:
  assumes "db_file w = Some (conn w)"
    and "load_csv_to_table check w table_name csv_name = (n, w')"
  shows "db_file w' = Some (conn w')"
    and "\<forall>t. t \<noteq> table_name \<longrightarrow> map_of (conn w') t = map_of (conn w) t"
    and "\<forall>t. (map_of (conn w') t = None) = (map_of (conn w) t = None)"
    and "length (rows_of (conn w') table_name) = length (rows_of (conn w) table_name) + n"
    and "csv_dir w' = csv_dir w" and "db_unavailable w' = db_unavailable w"
    and "output_csv w' = output_csv w"
proof -
  show "db_file w' = Some (conn w')" "csv_dir w' = csv_dir w"
    "db_unavailable w' = db_unavailable w" "output_csv w' = output_csv w"
    using assms
    by (auto simp: load_csv_to_table_def py_print_def rollback_def commit_def
        split: option.splits sum.splits prod.splits)
  show "\<forall>t. t \<noteq> table_name \<longrightarrow> map_of (conn w') t = map_of (conn w) t"
    using assms
    by (auto simp: load_csv_to_table_def py_print_def rollback_def commit_def
        split: option.splits sum.splits prod.splits dest: insert_rows_Inr)
  show "\<forall>t. (map_of (conn w') t = None) = (map_of (conn w) t = None)"
    using assms
    by (auto simp: load_csv_to_table_def py_print_def rollback_def commit_def
        split: option.splits sum.splits prod.splits dest!: insert_rows_Inr)
  show "length (rows_of (conn w') table_name) = length (rows_of (conn w) table_name) + n"
    using assms
    by (auto simp: load_csv_to_table_def py_print_def rollback_def commit_def
        split: option.splits sum.splits prod.splits dest!: insert_rows_Inr)
qed


lemma load_csv_to_table_missing:
  assumes "map_of (csv_dir w) csv_name = None"
  shows "load_csv_to_table check w table_name csv_name =
           (0, w\<lparr>console := console w @ [CsvFileNotFound (''data/'' @ csv_name)]\<rparr>)"
  using assms by (simp add: load_csv_to_table_def py_print_def)

lemma load_csv_to_table_console:
  "\<exists>m. console (snd (load_csv_to_table check w table_name csv_name)) = console w @ [m] \<and>
        load_report table_name csv_name m"
  by (auto simp: load_csv_to_table_def py_print_def rollback_def commit_def load_report_def
      split: option.splits sum.splits prod.splits)

lemma CSV_FILES_load_order:
  "t \<in> set load_order \<Longrightarrow> map_of CSV_FILES t = Some (t @ ''.csv'')"
  by (auto simp: load_order_def CSV_FILES_def)

lemma load_tables_props:
  assumes "db_file w = Some (conn w)" and "set ts \<subseteq> set load_order"
    and "load_tables check ts total0 w = (err, total0', w')"
  shows "err = None \<and> db_file w' = Some (conn w') \<and>
         (\<forall>t. (map_of (conn w') t = None) = (map_of (conn w) t = None)) \<and>
         csv_dir w' = csv_dir w \<and> db_unavailable w' = db_unavailable w \<and>
         output_csv w' = output_csv w \<and>
         (\<exists>reports. console w' = console w @ reports \<and> list_all2 table_report ts reports)"
  using assms
proof (induction ts arbitrary: w total0)
  case Nil
  then show ?case by simp
next
  case (Cons t ts)
  from Cons.prems(2) have t: "map_of CSV_FILES t = Some (t @ ''.csv'')"
    by (simp add: CSV_FILES_load_order)
  obtain n w1 where l: "load_csv_to_table check w t (t @ ''.csv'') = (n, w1)"
    by (cases "load_csv_to_table check w t (t @ ''.csv'')")
  from Cons.prems(3) t l have r: "load_tables check ts (total0 + n) w1 = (err, total0', w')"
    by simp
  note p = load_csv_to_table_props [OF Cons.prems(1) l]
  from load_csv_to_table_console [of check w t "t @ ''.csv''"] l obtain m where
    m: "console w1 = console w @ [m]" "load_report t (t @ ''.csv'') m" by auto
  from Cons.prems(2) have "set ts \<subseteq> set load_order" by simp
  from Cons.IH [OF p(1) this r] obtain reports where
    ih: "err = None" "db_file w' = Some (conn w')"
      "\<forall>t. (map_of (conn w') t = None) = (map_of (conn w1) t = None)"
      "csv_dir w' = csv_dir w1" "db_unavailable w' = db_unavailable w1"
      "output_csv w' = output_csv w1"
      "console w' = console w1 @ reports" "list_all2 table_report ts reports"
    by blast
  have "console w' = console w @ (m # reports)" using ih(7) m(1) by simp
  moreover have "list_all2 table_report (t # ts) (m # reports)"
    using ih(8) m(2) t by (simp add: table_report_def)
  ultimately have "\<exists>reports. console w' = console w @ reports \<and> list_all2 table_report (t # ts) reports"
    by blast
  with ih p show ?case by simp
qed

lemma load_tables_missing:
  assumes "set ts \<subseteq> set load_order" and "t \<in> set ts"
    and "map_of (csv_dir w) (t @ ''.csv'') = None"
    and "db_file w = Some (conn w)"
  shows "CsvFileNotFound (''data/'' @ t @ ''.csv'') \<in> set (console (snd (snd (load_tables check ts total0 w))))"
  using assms
proof (induction ts arbitrary: w total0)
  case Nil
  then show ?case by simp
next
  case (Cons t0 ts)
  from Cons.prems(1) have t0: "map_of CSV_FILES t0 = Some (t0 @ ''.csv'')"
    by (simp add: CSV_FILES_load_order)
  obtain n w1 where l: "load_csv_to_table check w t0 (t0 @ ''.csv'') = (n, w1)"
    by (cases "load_csv_to_table check w t0 (t0 @ ''.csv'')")
  note p = load_csv_to_table_props [OF Cons.prems(4) l]
  obtain err total0' w' where r: "load_tables check ts (total0 + n) w1 = (err, total0', w')"
    by (cases "load_tables check ts (total0 + n) w1") auto
  from Cons.prems(1) have sub: "set ts \<subseteq> set load_order" by simp
  from load_tables_props [OF p(1) sub r] obtain reports where
    c: "console w' = console w1 @ reports" by blast
  have e: "load_tables check (t0 # ts) total0 w = (err, total0', w')" using t0 l r by simp
  show ?case
  proof (cases "t = t0")
    case True
    with Cons.prems(3) l have "console w1 = console w @ [CsvFileNotFound (''data/'' @ t @ ''.csv'')]"
      by (auto simp: load_csv_to_table_missing)
    then show ?thesis using c e by simp
  next
    case False
    with Cons.prems(2) have "t \<in> set ts" by simp
    moreover from Cons.prems(3) p(5) have "map_of (csv_dir w1) (t @ ''.csv'') = None" by simp
    ultimately have "CsvFileNotFound (''data/'' @ t @ ''.csv'')
        \<in> set (console (snd (snd (load_tables check ts (total0 + n) w1))))"
      using Cons.IH [OF sub _ _ p(1)] by blast
    then show ?thesis using e r by simp
  qed
qed

lemma create_connection_available:
  assumes "\<not> db_unavailable w"
  shows "fst (create_connection w)"
    and "db_file (snd (create_connection w)) = Some []"
    and "conn (snd (create_connection w)) = []"
    and "csv_dir (snd (create_connection w)) = csv_dir w"
    and "db_unavailable (snd (create_connection w)) = db_unavailable w"
    and "output_csv (snd (create_connection w)) = output_csv w"
    and "\<exists>ms. console (snd (create_connection w)) = console w @ ms"
  using assms by (auto simp: create_connection_def Let_def py_print_def)

lemma create_tables_fresh:
  assumes "conn w = []"
  shows "conn (create_tables w) = empty_tables"
    and "db_file (create_tables w) = Some empty_tables"
    and "csv_dir (create_tables w) = csv_dir w" and "console (create_tables w) = console w"
    and "db_unavailable (create_tables w) = db_unavailable w"
    and "output_csv (create_tables w) = output_csv w"
  using assms
  by (simp_all add: create_tables_def commit_def create_table_def empty_tables_def load_order_def)

lemma empty_tables_exist: "t \<in> set load_order \<Longrightarrow> map_of empty_tables t \<noteq> None"
  by (auto simp: empty_tables_def load_order_def)

lemma rows_of_empty_tables: "rows_of empty_tables t = []"
  by (simp add: rows_of_def empty_tables_def load_order_def)

text \<open>What the loader's main leaves when the connection could be opened.\<close>

lemma load_database_main_available:
  assumes "\<not> db_unavailable w"
  shows "\<exists>db. db_file (load_database_main check reports w) = Some db \<and>
              (\<forall>t\<in>set load_order. map_of db t \<noteq> None)"
    and "csv_dir (load_database_main check reports w) = csv_dir w"
    and "db_unavailable (load_database_main check reports w) = db_unavailable w"
    and "\<exists>before rs after. console (load_database_main check reports w) = before @ rs @ after \<and>
           list_all2 table_report load_order rs"
    and "t \<in> set load_order \<Longrightarrow> map_of (csv_dir w) (t @ ''.csv'') = None \<Longrightarrow>
           CsvFileNotFound (''data/'' @ t @ ''.csv'') \<in> set (console (load_database_main check reports w))"
proof -
  define w1 where "w1 = snd (create_connection w)"
  define w2 where "w2 = create_tables w1"
  note c = create_connection_available [OF assms, folded w1_def]
  from c(1) have cc: "create_connection w = (True, w1)" by (simp add: w1_def prod_eq_iff)
  note t = create_tables_fresh [OF c(3), folded w2_def]
  obtain err total0 w3 where l: "load_tables check load_order 0 w2 = (err, total0, w3)"
    by (cases "load_tables check load_order 0 w2") auto
  have s2: "db_file w2 = Some (conn w2)" using t by simp
  from load_tables_props [OF s2 subset_refl l] obtain rs where
    p: "err = None" "db_file w3 = Some (conn w3)"
      "\<forall>t. (map_of (conn w3) t = None) = (map_of (conn w2) t = None)"
      "csv_dir w3 = csv_dir w2" "db_unavailable w3 = db_unavailable w2"
      "console w3 = console w2 @ rs" "list_all2 table_report load_order rs"
    by blast
  define final where "final = (case reports (conn w3) of
      Some e \<Rightarrow> ErrorDuringEtl e | None \<Rightarrow> DatabaseCreationComplete)"
  have m: "load_database_main check reports w =
      w3\<lparr>console := console w3 @ [TotalRowsLoaded total0, final, ConnectionClosed]\<rparr>"
    using cc l p(1,2)
    by (simp add: load_database_main_def w2_def [symmetric] py_print_def rollback_def final_def
        split: option.splits)
  have ex: "\<forall>t\<in>set load_order. map_of (conn w3) t \<noteq> None"
    using p(3) t(1) empty_tables_exist by simp
  show "\<exists>db. db_file (load_database_main check reports w) = Some db \<and>
              (\<forall>t\<in>set load_order. map_of db t \<noteq> None)"
    using m p(2) ex by simp
  show "csv_dir (load_database_main check reports w) = csv_dir w"
    using m p(4) t(3) c(4) by simp
  show "db_unavailable (load_database_main check reports w) = db_unavailable w"
    using m p(5) t(5) c(5) by simp
  have "console (load_database_main check reports w) =
      console w2 @ rs @ [TotalRowsLoaded total0, final, ConnectionClosed]"
    using m p(6) by simp
  with p(7) show "\<exists>before rs after. console (load_database_main check reports w) = before @ rs @ after \<and>
           list_all2 table_report load_order rs" by blast
  show "CsvFileNotFound (''data/'' @ t @ ''.csv'') \<in> set (console (load_database_main check reports w))"
    if "t \<in> set load_order" "map_of (csv_dir w) (t @ ''.csv'') = None"
  proof -
    from that(2) have "map_of (csv_dir w2) (t @ ''.csv'') = None" using t(3) c(4) by simp
    from load_tables_missing [OF subset_refl that(1) this s2, of check 0] l
    have "CsvFileNotFound (''data/'' @ t @ ''.csv'') \<in> set (console w3)" by simp
    then show ?thesis using m by simp
  qed
qed

lemma step_2_load_database_available:
  assumes "\<not> db_unavailable w"
  shows "step_2_load_database check reports w = (True, load_database_main check reports w)"
proof -
  from load_database_main_available(1) [OF assms, of check reports] obtain db where
    db: "db_file (load_database_main check reports w) = Some db"
      "\<forall>t\<in>set load_order. map_of db t \<noteq> None" by blast
  from db(2) have "list_all (\<lambda>table_name. map_of db table_name \<noteq> None)
      [''customers'', ''products'', ''orders'', ''order_items'', ''payments'']"
    by (simp add: load_order_def)
  with db(1) show ?thesis by (simp add: step_2_load_database_def Let_def)
qed



lemma orphan_items_fail:
  "insert_rows schema_check ''order_items''
     [''order_item_id'', ''order_id'', ''product_id'', ''quantity'', ''unit_price'', ''discount'', ''total'']
     (csv_rows orphan_items_file) parents_loaded 0 = Inl IntegrityError"
  by code_simp


lemma sample_world_without_customers:
  "\<not> db_unavailable (sample_world files_without_customers)"
  "map_of (csv_dir (sample_world files_without_customers)) ''customers.csv'' = None"
  by (simp_all add: sample_world_def files_without_customers_def)


section \<open>The claims about the loader and the pipeline\<close>



text \<open>
  Claim C7. Whatever the database file held before, after \<^verbatim>\<open>create_connection\<close>
  the file is gone (when connecting failed) or is an empty database, and after
  \<^verbatim>\<open>create_tables\<close> it holds the five tables with no rows: no row of a previous
  run survives.
\<close>

theorem connection_discards_previous_store:
  "db_file (snd (create_connection w)) = (if db_unavailable w then None else Some []) \<and>
   (\<not> db_unavailable w \<longrightarrow>
      conn (snd (create_connection w)) = [] \<and>
      conn (create_tables (snd (create_connection w))) = empty_tables \<and>
      db_file (create_tables (snd (create_connection w))) = Some empty_tables \<and>
      (\<forall>t. rows_of (conn (create_tables (snd (create_connection w)))) t = []))"
proof (cases "db_unavailable w")
  case True
  then show ?thesis by (simp add: create_connection_def Let_def py_print_def)
next
  case False
  note c = create_connection_available [OF False]
  note t = create_tables_fresh [OF c(3)]
  from c(2,3) t(1,2) False show ?thesis by (simp add: rows_of_empty_tables)
qed

text \<open>
  The sample world starts with a database that holds a customer; after the connection
  is created the database is empty, and the new customers table has no rows.
\<close>

theorem connection_discards_previous_store_witness:
  "db_file (sample_world []) = Some old_database \<and>
   length (rows_of old_database ''customers'') = 1 \<and>
   db_file (snd (create_connection (sample_world []))) = Some [] \<and>
   rows_of (conn (create_tables (snd (create_connection (sample_world []))))) ''customers'' = []"
proof -
  have a: "\<not> db_unavailable (sample_world [])" "db_file (sample_world []) = Some old_database"
    by (simp_all add: sample_world_def)
  have "length (rows_of old_database ''customers'') = 1"
    by (simp add: rows_of_def old_database_def)
  with connection_discards_previous_store [of "sample_world []"] a show ?thesis
    by (simp add: rows_of_empty_tables)
qed

text \<open>
  Claim C10. \<^verbatim>\<open>load_csv_to_table\<close> returns 0 when the file is missing, returns 0
  when an insert of the batch raises, and returns 0 as well for a file with a header and
  no lines, so the count does not tell these apart. When the connection can be opened,
  \<^verbatim>\<open>main\<close> prints one report for each of the five tables, in the order of
  \<^verbatim>\<open>load_order\<close>, whatever the loads did, and step 2 of the pipeline returns
  \<^verbatim>\<open>True\<close> to its caller.
\<close>

theorem load_failures_return_zero_and_go_on:
  "(map_of (csv_dir w) csv_name = None \<longrightarrow>
      fst (load_csv_to_table check w table_name csv_name) = 0) \<and>
   (\<forall>f columns e.
      map_of (csv_dir w) csv_name = Some f \<and> fieldnames f = Some columns \<and>
      insert_rows check table_name columns (csv_rows f) (conn w) 0 = Inl e \<longrightarrow>
      fst (load_csv_to_table check w table_name csv_name) = 0) \<and>
   (\<forall>f columns.
      map_of (csv_dir w) csv_name = Some f \<and> fieldnames f = Some columns \<and> csv_rows f = [] \<longrightarrow>
      fst (load_csv_to_table check w table_name csv_name) = 0) \<and>
   (\<not> db_unavailable w \<longrightarrow>
      (\<exists>before rs after.
         console (load_database_main check reports w) = before @ rs @ after \<and>
         list_all2 table_report load_order rs) \<and>
      step_2_load_database check reports w = (True, load_database_main check reports w))"
proof -
  have "fst (load_csv_to_table check w table_name csv_name) = 0"
    if "map_of (csv_dir w) csv_name = None"
    using that by (simp add: load_csv_to_table_def)
  moreover have "fst (load_csv_to_table check w table_name csv_name) = 0"
    if "map_of (csv_dir w) csv_name = Some f" "fieldnames f = Some columns"
      "insert_rows check table_name columns (csv_rows f) (conn w) 0 = Inl e" for f columns e
    using that by (simp add: load_csv_to_table_def)
  moreover have "fst (load_csv_to_table check w table_name csv_name) = 0"
    if "map_of (csv_dir w) csv_name = Some f" "fieldnames f = Some columns" "csv_rows f = []"
    for f columns
    using that by (simp add: load_csv_to_table_def)
  moreover have "(\<exists>before rs after.
         console (load_database_main check reports w) = before @ rs @ after \<and>
         list_all2 table_report load_order rs) \<and>
      step_2_load_database check reports w = (True, load_database_main check reports w)"
    if "\<not> db_unavailable w"
    using load_database_main_available(4) [OF that] step_2_load_database_available [OF that]
    by blast
  ultimately show ?thesis by blast
qed

text \<open>
  With \<^verbatim>\<open>customers.csv\<close> missing the load of customers returns 0, with the orphan
  item the load of order items returns 0, and step 2 succeeds all the same.
\<close>

theorem load_failures_return_zero_and_go_on_witness:
  "map_of (csv_dir (sample_world files_without_customers)) ''customers.csv'' = None \<and>
   fst (load_csv_to_table schema_check (sample_world files_without_customers)
          ''customers'' ''customers.csv'') = 0 \<and>
   fst (load_csv_to_table schema_check orphan_world ''order_items'' ''order_items.csv'') = 0 \<and>
   fst (step_2_load_database schema_check summary_stats_error (sample_world files_without_customers))"
proof -
  note t1 = load_failures_return_zero_and_go_on [of "sample_world files_without_customers"
      "''customers.csv''" schema_check "''customers''" summary_stats_error]
  note t2 = load_failures_return_zero_and_go_on [of orphan_world
      "''order_items.csv''" schema_check "''order_items''" summary_stats_error]
  have i: "map_of (csv_dir orphan_world) ''order_items.csv'' = Some orphan_items_file \<and>
      fieldnames orphan_items_file =
        Some [''order_item_id'', ''order_id'', ''product_id'', ''quantity'', ''unit_price'',
              ''discount'', ''total''] \<and>
      insert_rows schema_check ''order_items''
        [''order_item_id'', ''order_id'', ''product_id'', ''quantity'', ''unit_price'',
         ''discount'', ''total'']
        (csv_rows orphan_items_file) (conn orphan_world) 0 = Inl IntegrityError"
    using orphan_items_fail by (simp add: orphan_world_def orphan_items_file_def)
  from t2 i have "fst (load_csv_to_table schema_check orphan_world ''order_items'' ''order_items.csv'') = 0"
    by blast
  with t1 sample_world_without_customers show ?thesis by simp
qed




section \<open>Runs of the generator compared\<close>







lemma duplicate_email_batch_fails:
  "load_csv_to_table schema_check
     \<lparr>csv_dir = [(''customers.csv'', duplicate_email_file)], db_file = Some empty_tables,
      conn = empty_tables, console = [], output_csv = None, db_unavailable = False\<rparr>
     ''customers'' ''customers.csv'' =
   (0, \<lparr>csv_dir = [(''customers.csv'', duplicate_email_file)], db_file = Some empty_tables,
        conn = empty_tables, console = [ErrorLoading ''customers'' IntegrityError],
        output_csv = None, db_unavailable = False\<rparr>)"
  by code_simp























section \<open>The claims about uniqueness and reproducibility\<close>





end
